theory Spec2Isabelle
  imports Main "HOL-Library.Char_ord" "HOL-Library.List_Lexorder"
begin

section \<open>Python values used by both scripts\<close>

subsection \<open>Exceptions\<close>

text \<open>
  Both scripts catch \<^verbatim>\<open>Exception\<close> and print \<^verbatim>\<open>str(e)\<close>.  An exception is its
  kind and the text \<^verbatim>\<open>str(e)\<close> gives.  \<open>SdkError\<close> stands for whatever boto3 or
  botocore raise (client errors, connection errors, missing credentials).
\<close>

datatype exc_kind = KeyError | ValueError | TypeError | SdkError

datatype py_error = Exc exc_kind string

fun exc_str :: "py_error \<Rightarrow> string" where
  "exc_str (Exc k msg) = msg"

definition bind_exc :: "py_error + 'a \<Rightarrow> ('a \<Rightarrow> py_error + 'b) \<Rightarrow> py_error + 'b" where
  "bind_exc m f = (case m of Inl e \<Rightarrow> Inl e | Inr x \<Rightarrow> f x)"

text \<open>\<^verbatim>\<open>repr\<close> of a key that holds no quote, as \<^verbatim>\<open>str(KeyError(key))\<close> prints it.\<close>

definition py_repr :: "string \<Rightarrow> string" where
  "py_repr s = [CHR 0x27] @ s @ [CHR 0x27]"

text \<open>\<^verbatim>\<open>d[key]\<close> on a dict whose entry for \<open>key\<close> is \<open>v\<close> (\<open>None\<close>: the key is absent).\<close>

definition getitem :: "string \<Rightarrow> 'a option \<Rightarrow> py_error + 'a" where
  "getitem key v = (case v of None \<Rightarrow> Inl (Exc KeyError (py_repr key)) | Some x \<Rightarrow> Inr x)"

text \<open>\<^verbatim>\<open>d.get(key, default)\<close>.\<close>

definition get_default :: "'a option \<Rightarrow> 'a \<Rightarrow> 'a" where
  "get_default v d = (case v of None \<Rightarrow> d | Some x \<Rightarrow> x)"

subsection \<open>Strings and numbers\<close>

definition digit_char :: "nat \<Rightarrow> char" where
  "digit_char n = ''0123456789'' ! n"

function str_nat :: "nat \<Rightarrow> string" where
  "str_nat n = (if n < 10 then [digit_char n] else str_nat (n div 10) @ [digit_char (n mod 10)])"
  by pat_completeness auto
termination
  by (relation "measure id") auto

declare str_nat.simps [simp del]

text \<open>\<^verbatim>\<open>str(i)\<close> for a Python int.\<close>

definition str_int :: "int \<Rightarrow> string" where
  "str_int i = (if i < 0 then CHR ''-'' # str_nat (nat (- i)) else str_nat (nat i))"

text \<open>The format specification \<^verbatim>\<open>{s:<w}\<close>: pad with spaces on the right, never cut.\<close>

definition ljust :: "nat \<Rightarrow> string \<Rightarrow> string" where
  "ljust w s = s @ replicate (w - length s) CHR '' ''"

text \<open>\<^verbatim>\<open>s.replace('Z', '+00:00')\<close>: every occurrence is replaced.\<close>

definition replace_Z :: "string \<Rightarrow> string" where
  "replace_Z s = concat (map (\<lambda>c. if c = CHR ''Z'' then ''+00:00'' else [c]) s)"

subsection \<open>Dictionaries\<close>

text \<open>
  A Python dict keeps its keys in insertion order, each key once; assigning to
  a key that is there keeps its place.
\<close>

type_synonym ('k, 'v) dict = "('k \<times> 'v) list"

definition dict_get :: "('k, 'v) dict \<Rightarrow> 'k \<Rightarrow> 'v option" where
  "dict_get d k = map_of d k"

fun dict_set :: "('k, 'v) dict \<Rightarrow> 'k \<Rightarrow> 'v \<Rightarrow> ('k, 'v) dict" where
  "dict_set [] k v = [(k, v)]"
| "dict_set ((k', v') # d) k v = (if k' = k then (k, v) # d else (k', v') # dict_set d k v)"

definition dict_keys :: "('k, 'v) dict \<Rightarrow> 'k list" where
  "dict_keys d = map fst d"

definition is_dict :: "('k, 'v) dict \<Rightarrow> bool" where
  "is_dict d = distinct (dict_keys d)"

subsection \<open>Datetimes\<close>

text \<open>
  A \<^verbatim>\<open>datetime\<close> is its wall-clock reading in microseconds and its UTC offset in
  microseconds, \<open>None\<close> for a naive one.  Python orders two aware datetimes by
  their instants, two naive ones by their readings, and raises \<^verbatim>\<open>TypeError\<close> on a mix.
\<close>

datatype pydatetime = Datetime (wall: int) (utcoffset: "int option")

definition dt_gt :: "pydatetime \<Rightarrow> pydatetime \<Rightarrow> py_error + bool" where
  "dt_gt a b =
     (case (utcoffset a, utcoffset b) of
        (None, None) \<Rightarrow> Inr (wall b < wall a)
      | (Some oa, Some ob) \<Rightarrow> Inr (wall b - ob < wall a - oa)
      | _ \<Rightarrow> Inl (Exc TypeError ''can't compare offset-naive and offset-aware datetimes''))"

text \<open>\<^verbatim>\<open>(a - b).days\<close>: a \<^verbatim>\<open>timedelta\<close> keeps the floor of the days.\<close>

definition days_between :: "pydatetime \<Rightarrow> pydatetime \<Rightarrow> py_error + int" where
  "days_between a b =
     (case (utcoffset a, utcoffset b) of
        (None, None) \<Rightarrow> Inr ((wall a - wall b) div 86400000000)
      | (Some oa, Some ob) \<Rightarrow> Inr (((wall a - oa) - (wall b - ob)) div 86400000000)
      | _ \<Rightarrow> Inl (Exc TypeError ''can't subtract offset-naive and offset-aware datetimes''))"

section \<open>The collaborators\<close>

text \<open>
  What the cloud API returns, as the scripts read it: every key a script reads
  with \<^verbatim>\<open>d[key]\<close> or \<^verbatim>\<open>d.get(key)\<close> is a field, \<open>None\<close> when the dict has no
  such key.
\<close>

record instance_state =
  state_Name :: "string option"

record ec2_instance =
  InstanceId :: "string option"
  InstanceType :: "string option"
  instance_ImageId :: "string option"
  LaunchTime :: "pydatetime option"
  instance_State :: "instance_state option"

record reservation =
  Instances :: "ec2_instance list option"

record instances_response =
  Reservations :: "reservation list option"

record ebs =
  VolumeSize :: "int option"
  VolumeType :: "string option"
  Encrypted :: "bool option"

record block_device_mapping =
  DeviceName :: "string option"
  Ebs :: "ebs option"

record tag =
  Key :: "string option"
  Value :: "string option"

record image =
  ImageId :: "string option"
  Name :: "string option"
  Description :: "string option"
  OwnerId :: "string option"
  Architecture :: "string option"
  RootDeviceType :: "string option"
  VirtualizationType :: "string option"
  State :: "string option"
  CreationDate :: "string option"
  Tags :: "tag list option"
  BlockDeviceMappings :: "block_device_mapping list option"

record images_response =
  Images :: "image list option"

text \<open>
  The two ways the scripts call \<^verbatim>\<open>describe_images\<close>: with \<^verbatim>\<open>ImageIds\<close>, or with
  \<^verbatim>\<open>Owners\<close> and \<^verbatim>\<open>Filters\<close> (each filter its \<^verbatim>\<open>Name\<close> and \<^verbatim>\<open>Values\<close>).
\<close>

datatype images_request =
  ByImageIds "string list"
| ByOwnersFilters "string list" "(string \<times> string list) list"

text \<open>
  Everything outside the repository that a run depends on.
  \<^item> \<open>boto3_client region\<close>: the exception \<^verbatim>\<open>boto3.client('ec2', region_name=region)\<close>
    raises, if any;
  \<^item> \<open>describe_instances region\<close>, \<open>describe_images region request\<close>: the outcome of
    the remote call, an exception or the response;
  \<^item> \<open>now k\<close>: the instant, in microseconds, that the \<open>k\<close>-th reading of
    \<^verbatim>\<open>datetime.now(timezone.utc)\<close> of a run gives;
  \<^item> \<open>fromisoformat\<close>, \<open>strftime\<close>: the two methods of the standard library's
    \<^verbatim>\<open>datetime\<close>;
  \<^item> \<open>str_hash\<close>: the hash that fixes the iteration order of a \<^verbatim>\<open>set\<close> of strings.
\<close>

record env =
  boto3_client :: "string \<Rightarrow> py_error option"
  describe_instances :: "string \<Rightarrow> py_error + instances_response"
  describe_images :: "string \<Rightarrow> images_request \<Rightarrow> py_error + images_response"
  now :: "nat \<Rightarrow> int"
  fromisoformat :: "string \<Rightarrow> py_error + pydatetime"
  strftime :: "pydatetime \<Rightarrow> string \<Rightarrow> string"
  str_hash :: "string \<Rightarrow> nat"

definition datetime_now :: "env \<Rightarrow> nat \<Rightarrow> pydatetime" where
  "datetime_now env k = Datetime (now env k) (Some 0)"

text \<open>
  \<^verbatim>\<open>list(set(xs))\<close>: the distinct elements, in an order that the hashes decide.
  Every order of the distinct elements is the one some \<open>str_hash\<close> gives.
\<close>

definition list_of_set :: "env \<Rightarrow> string list \<Rightarrow> string list" where
  "list_of_set env xs = sort_key (str_hash env) (remdups xs)"

subsection \<open>Output\<close>

text \<open>
  A computation that prints: the arguments of its \<^verbatim>\<open>print\<close> calls in order, and
  how it ends, with an exception or with a value.
\<close>

type_synonym 'a io = "string list \<times> (py_error + 'a)"

definition io_return :: "'a \<Rightarrow> 'a io" where
  "io_return x = ([], Inr x)"

definition io_raise :: "py_error \<Rightarrow> 'a io" where
  "io_raise e = ([], Inl e)"

definition io_lift :: "py_error + 'a \<Rightarrow> 'a io" where
  "io_lift r = ([], r)"

definition io_print :: "string \<Rightarrow> unit io" where
  "io_print s = ([s], Inr ())"

definition io_bind :: "'a io \<Rightarrow> ('a \<Rightarrow> 'b io) \<Rightarrow> 'b io" where
  "io_bind m f =
     (case m of
        (out, Inl e) \<Rightarrow> (out, Inl e)
      | (out, Inr x) \<Rightarrow> (case f x of (out', r) \<Rightarrow> (out @ out', r)))"

text \<open>An f-string is evaluated first; when that raises, nothing is printed.\<close>

definition io_print_exc :: "py_error + string \<Rightarrow> unit io" where
  "io_print_exc r = (case r of Inl e \<Rightarrow> io_raise e | Inr s \<Rightarrow> io_print s)"

definition newline :: string where
  "newline = [CHR 0x0A]"

text \<open>The two emoji of the reports, in UTF-8.\<close>

definition warning_sign :: string where
  "warning_sign = [CHR 0xE2, CHR 0x9A, CHR 0xA0, CHR 0xEF, CHR 0xB8, CHR 0x8F]"

definition check_mark :: string where
  "check_mark = [CHR 0xE2, CHR 0x9C, CHR 0x85]"

section \<open>check\_ami.py\<close>

subsection \<open>\<^verbatim>\<open>get_ec2_instances\<close> (lines 23-38)\<close>

text \<open>The inner loop (lines 31-33) and the outer loop (line 30), with the list they fill.\<close>

fun instances_loop :: "ec2_instance list \<Rightarrow> ec2_instance list \<Rightarrow> py_error + ec2_instance list" where
  "instances_loop [] instances = Inr instances"
| "instances_loop (inst # rest) instances =
     (case getitem ''State'' (instance_State inst) of
        Inl e \<Rightarrow> Inl e
      | Inr st \<Rightarrow>
          (case getitem ''Name'' (state_Name st) of
             Inl e \<Rightarrow> Inl e
           | Inr state_name \<Rightarrow>
               instances_loop rest
                 (if state_name \<noteq> ''terminated'' then instances @ [inst] else instances)))"

fun reservations_loop :: "reservation list \<Rightarrow> ec2_instance list \<Rightarrow> py_error + ec2_instance list" where
  "reservations_loop [] instances = Inr instances"
| "reservations_loop (r # rest) instances =
     (case getitem ''Instances'' (Instances r) of
        Inl e \<Rightarrow> Inl e
      | Inr insts \<Rightarrow>
          (case instances_loop insts instances of
             Inl e \<Rightarrow> Inl e
           | Inr instances' \<Rightarrow> reservations_loop rest instances'))"

text \<open>The body of the \<^verbatim>\<open>try\<close> (lines 27-35).\<close>

definition get_ec2_instances_try :: "env \<Rightarrow> string \<Rightarrow> py_error + ec2_instance list" where
  "get_ec2_instances_try env region =
     bind_exc (describe_instances env region) (\<lambda>response.
     bind_exc (getitem ''Reservations'' (Reservations response)) (\<lambda>reservations.
       reservations_loop reservations []))"

text \<open>The client is built before the \<^verbatim>\<open>try\<close> (line 24): what it raises is not caught.\<close>

definition get_ec2_instances :: "env \<Rightarrow> string \<Rightarrow> ec2_instance list io" where
  "get_ec2_instances env region =
     (case boto3_client env region of
        Some e \<Rightarrow> io_raise e
      | None \<Rightarrow>
          (case get_ec2_instances_try env region of
             Inl e \<Rightarrow> io_bind (io_print (''Error fetching EC2 instances: '' @ exc_str e)) (\<lambda>_. io_return [])
           | Inr instances \<Rightarrow> io_return instances))"

subsection \<open>\<^verbatim>\<open>get_ami_info\<close> (lines 41-65)\<close>

text \<open>The inner dict that \<^verbatim>\<open>get_ami_info\<close> builds for an image (lines 55-60).\<close>

record ami_meta =
  name :: string
  creation_date :: pydatetime
  creation_date_str :: string
  age_days :: int

text \<open>
  One round of the loop (lines 52-60): the key and the entry for an image, with
  the \<open>k\<close>-th reading of the clock.
\<close>

definition ami_entry :: "env \<Rightarrow> nat \<Rightarrow> image \<Rightarrow> py_error + (string \<times> ami_meta)" where
  "ami_entry env k img =
     bind_exc (getitem ''ImageId'' (ImageId img)) (\<lambda>ami_id.
     bind_exc (getitem ''CreationDate'' (CreationDate img)) (\<lambda>s.
     bind_exc (fromisoformat env (replace_Z s)) (\<lambda>created.
     bind_exc (days_between (datetime_now env k) created) (\<lambda>age.
       Inr (ami_id,
            \<lparr>name = get_default (Name img) ''Unknown'',
             creation_date = created,
             creation_date_str = strftime env created ''%Y-%m-%d %H:%M:%S UTC'',
             age_days = age\<rparr>)))))"

text \<open>
  The loop (line 51) over the images, filling \<^verbatim>\<open>ami_info\<close>; an exception ends
  it and leaves what was filled so far.
\<close>

fun get_ami_info_loop ::
  "env \<Rightarrow> nat \<Rightarrow> image list \<Rightarrow> (string, ami_meta) dict \<Rightarrow> (string, ami_meta) dict \<times> py_error option" where
  "get_ami_info_loop env k [] ami_info = (ami_info, None)"
| "get_ami_info_loop env k (img # rest) ami_info =
     (case ami_entry env k img of
        Inl e \<Rightarrow> (ami_info, Some e)
      | Inr (ami_id, info) \<Rightarrow> get_ami_info_loop env (Suc k) rest (dict_set ami_info ami_id info))"

definition get_ami_info :: "env \<Rightarrow> string \<Rightarrow> string list \<Rightarrow> (string, ami_meta) dict io" where
  "get_ami_info env region ami_ids =
     (case boto3_client env region of
        Some e \<Rightarrow> io_raise e
      | None \<Rightarrow>
          if ami_ids = [] then io_return []
          else
            (case bind_exc (describe_images env region (ByImageIds ami_ids))
                    (\<lambda>response. getitem ''Images'' (Images response)) of
               Inl e \<Rightarrow>
                 io_bind (io_print (''Error fetching AMI information: '' @ exc_str e)) (\<lambda>_. io_return [])
             | Inr images \<Rightarrow>
                 (case get_ami_info_loop env 0 images [] of
                    (ami_info, None) \<Rightarrow> io_return ami_info
                  | (ami_info, Some e) \<Rightarrow>
                      io_bind (io_print (''Error fetching AMI information: '' @ exc_str e))
                        (\<lambda>_. io_return ami_info))))"

subsection \<open>\<^verbatim>\<open>check_ami_rotation\<close> (lines 68-75)\<close>

definition rotation_days_default :: int where
  "rotation_days_default = 90"

text \<open>The loop over \<^verbatim>\<open>ami_info.items()\<close> with its accumulator \<^verbatim>\<open>old_amis\<close>.\<close>

fun check_ami_rotation_loop :: "(string, ami_meta) dict \<Rightarrow> int \<Rightarrow> string list \<Rightarrow> string list" where
  "check_ami_rotation_loop [] rotation_days old_amis = old_amis"
| "check_ami_rotation_loop ((ami_id, info) # rest) rotation_days old_amis =
     check_ami_rotation_loop rest rotation_days
       (if age_days info > rotation_days then old_amis @ [ami_id] else old_amis)"

definition check_ami_rotation :: "(string, ami_meta) dict \<Rightarrow> int \<Rightarrow> string list" where
  "check_ami_rotation ami_info rotation_days = check_ami_rotation_loop ami_info rotation_days []"

subsection \<open>\<^verbatim>\<open>main\<close> (lines 78-136)\<close>

text \<open>Line 91: the list comprehension, then \<^verbatim>\<open>list(set(...))\<close>.\<close>

fun image_ids_of :: "ec2_instance list \<Rightarrow> py_error + string list" where
  "image_ids_of [] = Inr []"
| "image_ids_of (inst # rest) =
     (case getitem ''ImageId'' (instance_ImageId inst) of
        Inl e \<Rightarrow> Inl e
      | Inr ami_id \<Rightarrow>
          (case image_ids_of rest of
             Inl e \<Rightarrow> Inl e
           | Inr ids \<Rightarrow> Inr (ami_id # ids)))"

definition unique_ami_ids :: "env \<Rightarrow> ec2_instance list \<Rightarrow> py_error + string list" where
  "unique_ami_ids env instances = bind_exc (image_ids_of instances) (\<lambda>ids. Inr (list_of_set env ids))"

text \<open>Lines 94-96.\<close>

definition print_summary :: "ec2_instance list \<Rightarrow> string list \<Rightarrow> unit io" where
  "print_summary instances ami_ids =
     io_bind (io_print (newline @ ''SUMMARY:'')) (\<lambda>_.
     io_bind (io_print (''Total EC2 instances: '' @ str_int (int (length instances)))) (\<lambda>_.
     io_print (''Unique AMIs in use: '' @ str_int (int (length ami_ids)))))"

text \<open>Lines 104-109: the row of one instance.\<close>

definition instance_row :: "env \<Rightarrow> ec2_instance \<Rightarrow> py_error + string" where
  "instance_row env inst =
     bind_exc (getitem ''InstanceId'' (InstanceId inst)) (\<lambda>instance_id.
     bind_exc (getitem ''InstanceType'' (InstanceType inst)) (\<lambda>instance_type.
     bind_exc (getitem ''ImageId'' (instance_ImageId inst)) (\<lambda>ami_id.
     bind_exc (getitem ''LaunchTime'' (LaunchTime inst)) (\<lambda>launched.
       Inr (ljust 20 instance_id @ '' '' @ ljust 15 instance_type @ '' '' @ ljust 15 ami_id @ '' '' @
            ljust 20 (strftime env launched ''%Y-%m-%d %H:%M:%S''))))))"

fun print_instance_rows :: "env \<Rightarrow> ec2_instance list \<Rightarrow> unit io" where
  "print_instance_rows env [] = io_return ()"
| "print_instance_rows env (inst # rest) =
     io_bind (io_print_exc (instance_row env inst)) (\<lambda>_. print_instance_rows env rest)"

text \<open>Lines 98-109.\<close>

definition print_instances :: "env \<Rightarrow> ec2_instance list \<Rightarrow> unit io" where
  "print_instances env instances =
     io_bind (io_print (newline @ ''EC2 INSTANCES:'')) (\<lambda>_.
     io_bind (io_print (replicate 80 CHR ''-'')) (\<lambda>_.
     io_bind (io_print (ljust 20 ''Instance ID'' @ '' '' @ ljust 15 ''Instance Type'' @ '' '' @
                        ljust 15 ''AMI ID'' @ '' '' @ ljust 20 ''Launch Time'')) (\<lambda>_.
     io_bind (io_print (replicate 80 CHR ''-'')) (\<lambda>_.
     print_instance_rows env instances))))"

text \<open>Lines 117-124: the row of one image id.\<close>

definition ami_row :: "(string, ami_meta) dict \<Rightarrow> string \<Rightarrow> string" where
  "ami_row ami_info ami_id =
     (case dict_get ami_info ami_id of
        Some info \<Rightarrow>
          ljust 15 ami_id @ '' '' @
          ljust 30 (if length (name info) > 29 then take 29 (name info) else name info) @ '' '' @
          ljust 20 (creation_date_str info) @ '' '' @
          ljust 10 (str_int (age_days info))
      | None \<Rightarrow>
          ljust 15 ami_id @ '' '' @ ljust 30 ''Unknown'' @ '' '' @ ljust 20 ''Unknown'' @ '' '' @
          ljust 10 ''Unknown'')"

fun print_ami_rows :: "(string, ami_meta) dict \<Rightarrow> string list \<Rightarrow> unit io" where
  "print_ami_rows ami_info [] = io_return ()"
| "print_ami_rows ami_info (ami_id # rest) =
     io_bind (io_print (ami_row ami_info ami_id)) (\<lambda>_. print_ami_rows ami_info rest)"

text \<open>Lines 111-124.\<close>

definition print_ami_table :: "string list \<Rightarrow> (string, ami_meta) dict \<Rightarrow> unit io" where
  "print_ami_table ami_ids ami_info =
     io_bind (io_print (newline @ ''AMI INFORMATION:'')) (\<lambda>_.
     io_bind (io_print (replicate 80 CHR ''-'')) (\<lambda>_.
     io_bind (io_print (ljust 15 ''AMI ID'' @ '' '' @ ljust 30 ''AMI Name'' @ '' '' @
                        ljust 20 ''Created'' @ '' '' @ ljust 10 ''Age (days)'')) (\<lambda>_.
     io_bind (io_print (replicate 80 CHR ''-'')) (\<lambda>_.
     print_ami_rows ami_info (sort ami_ids)))))"

text \<open>Lines 131-134: the loop over \<^verbatim>\<open>old_amis\<close>.\<close>

definition old_ami_line :: "(string, ami_meta) dict \<Rightarrow> string \<Rightarrow> py_error + string" where
  "old_ami_line ami_info ami_id =
     bind_exc (getitem ami_id (dict_get ami_info ami_id)) (\<lambda>info.
       Inr (''  - '' @ ami_id @ '': '' @ name info @ '' ('' @ str_int (age_days info) @ '' days old)''))"

fun print_old_amis :: "(string, ami_meta) dict \<Rightarrow> string list \<Rightarrow> unit io" where
  "print_old_amis ami_info [] = io_return ()"
| "print_old_amis ami_info (ami_id # rest) =
     io_bind (io_print_exc (old_ami_line ami_info ami_id)) (\<lambda>_. print_old_amis ami_info rest)"

definition all_within_policy_line :: string where
  "all_within_policy_line = newline @ check_mark @ '' All AMIs are within the 90-day rotation policy.''"

text \<open>Lines 126-136.\<close>

definition print_rotation :: "(string, ami_meta) dict \<Rightarrow> unit io" where
  "print_rotation ami_info =
     (let old_amis = check_ami_rotation ami_info rotation_days_default in
      if old_amis \<noteq> [] then
        io_bind (io_print (newline @ warning_sign @ ''  AMI ROTATION WARNING:'')) (\<lambda>_.
        io_bind (io_print ''The following AMIs are older than 90 days and should be rotated:'') (\<lambda>_.
        print_old_amis ami_info old_amis))
      else io_print all_within_policy_line)"

text \<open>\<^verbatim>\<open>main\<close>, from the parsed \<^verbatim>\<open>--region\<close> on.\<close>

definition main_check_ami :: "env \<Rightarrow> string \<Rightarrow> unit io" where
  "main_check_ami env region =
     io_bind (io_print (''Checking EC2 instances in region: '' @ region)) (\<lambda>_.
     io_bind (io_print (replicate 50 CHR ''='')) (\<lambda>_.
     io_bind (get_ec2_instances env region) (\<lambda>instances.
       if instances = [] then io_print ''No EC2 instances found or error occurred.''
       else
         io_bind (io_lift (unique_ami_ids env instances)) (\<lambda>ami_ids.
         io_bind (get_ami_info env region ami_ids) (\<lambda>ami_info.
         io_bind (print_summary instances ami_ids) (\<lambda>_.
         io_bind (print_instances env instances) (\<lambda>_.
         io_bind (print_ami_table ami_ids ami_info) (\<lambda>_.
         print_rotation ami_info))))))))"

section \<open>latest\_ami.py\<close>

subsection \<open>\<^verbatim>\<open>get_latest_ami\<close> (lines 28-58)\<close>

text \<open>The key of line 52.\<close>

definition creation_key :: "env \<Rightarrow> image \<Rightarrow> py_error + pydatetime" where
  "creation_key env x =
     bind_exc (getitem ''CreationDate'' (CreationDate x)) (\<lambda>s. fromisoformat env (replace_Z s))"

text \<open>
  The builtin \<^verbatim>\<open>max(iterable, key=...)\<close>: the first item and its key are kept, and
  a later item replaces them when its key is greater (\<^verbatim>\<open>>\<close>) than the kept key.
\<close>

fun py_max_loop :: "('a \<Rightarrow> py_error + pydatetime) \<Rightarrow> 'a list \<Rightarrow> 'a \<Rightarrow> pydatetime \<Rightarrow> py_error + 'a" where
  "py_max_loop key [] maxitem maxval = Inr maxitem"
| "py_max_loop key (item # rest) maxitem maxval =
     (case key item of
        Inl e \<Rightarrow> Inl e
      | Inr v \<Rightarrow>
          (case dt_gt v maxval of
             Inl e \<Rightarrow> Inl e
           | Inr gt \<Rightarrow>
               if gt then py_max_loop key rest item v
               else py_max_loop key rest maxitem maxval))"

definition py_max :: "('a \<Rightarrow> py_error + pydatetime) \<Rightarrow> 'a list \<Rightarrow> py_error + 'a" where
  "py_max key xs =
     (case xs of
        [] \<Rightarrow> Inl (Exc ValueError ''max() arg is an empty sequence'')
      | x # rest \<Rightarrow>
          (case key x of
             Inl e \<Rightarrow> Inl e
           | Inr v \<Rightarrow> py_max_loop key rest x v))"

text \<open>The body of the \<^verbatim>\<open>try\<close> (lines 32-54).\<close>

definition get_latest_ami_try :: "env \<Rightarrow> string \<Rightarrow> string \<Rightarrow> string \<Rightarrow> py_error + image option" where
  "get_latest_ami_try env region name_pattern owner =
     bind_exc (describe_images env region
                 (ByOwnersFilters [owner] [(''name'', [name_pattern]), (''state'', [''available''])]))
       (\<lambda>response.
     bind_exc (getitem ''Images'' (Images response)) (\<lambda>images.
       if images = [] then Inr None
       else bind_exc (py_max (creation_key env) images) (\<lambda>latest_ami. Inr (Some latest_ami))))"

definition get_latest_ami :: "env \<Rightarrow> string \<Rightarrow> string \<Rightarrow> string \<Rightarrow> image option io" where
  "get_latest_ami env region name_pattern owner =
     (case boto3_client env region of
        Some e \<Rightarrow> io_raise e
      | None \<Rightarrow>
          (case get_latest_ami_try env region name_pattern owner of
             Inl e \<Rightarrow> io_bind (io_print (''Error fetching AMI information: '' @ exc_str e)) (\<lambda>_. io_return None)
           | Inr latest_ami \<Rightarrow> io_return latest_ami))"

subsection \<open>\<^verbatim>\<open>format_ami_info\<close> (lines 61-90)\<close>

text \<open>Lines 62-63 and 106-107: the age of an image at the \<open>k\<close>-th reading of the clock.\<close>

definition image_age :: "env \<Rightarrow> nat \<Rightarrow> image \<Rightarrow> py_error + (pydatetime \<times> int)" where
  "image_age env k ami =
     bind_exc (getitem ''CreationDate'' (CreationDate ami)) (\<lambda>s.
     bind_exc (fromisoformat env (replace_Z s)) (\<lambda>created.
     bind_exc (days_between (datetime_now env k) created) (\<lambda>age. Inr (created, age))))"

text \<open>Lines 80-81.\<close>

definition tag_line :: "tag \<Rightarrow> py_error + string" where
  "tag_line t =
     bind_exc (getitem ''Key'' (Key t)) (\<lambda>k.
     bind_exc (getitem ''Value'' (Value t)) (\<lambda>v. Inr (''  '' @ k @ '': '' @ v)))"

fun print_tags :: "tag list \<Rightarrow> unit io" where
  "print_tags [] = io_return ()"
| "print_tags (t # rest) = io_bind (io_print_exc (tag_line t)) (\<lambda>_. print_tags rest)"

text \<open>Lines 65-81: the fields and the tags.\<close>

definition print_ami_fields :: "env \<Rightarrow> nat \<Rightarrow> image \<Rightarrow> unit io" where
  "print_ami_fields env k ami =
     io_bind (io_lift (image_age env k ami)) (\<lambda>(created, age).
     io_bind (io_print ''Latest AMI Found:'') (\<lambda>_.
     io_bind (io_print ''=================='') (\<lambda>_.
     io_bind (io_print_exc (bind_exc (getitem ''ImageId'' (ImageId ami)) (\<lambda>v. Inr (''AMI ID:          '' @ v)))) (\<lambda>_.
     io_bind (io_print_exc (bind_exc (getitem ''Name'' (Name ami)) (\<lambda>v. Inr (''Name:            '' @ v)))) (\<lambda>_.
     io_bind (io_print (''Description:     '' @ get_default (Description ami) ''N/A'')) (\<lambda>_.
     io_bind (io_print_exc (bind_exc (getitem ''OwnerId'' (OwnerId ami)) (\<lambda>v. Inr (''Owner ID:        '' @ v)))) (\<lambda>_.
     io_bind (io_print_exc (bind_exc (getitem ''Architecture'' (Architecture ami)) (\<lambda>v. Inr (''Architecture:    '' @ v)))) (\<lambda>_.
     io_bind (io_print_exc (bind_exc (getitem ''RootDeviceType'' (RootDeviceType ami)) (\<lambda>v. Inr (''Root Device:     '' @ v)))) (\<lambda>_.
     io_bind (io_print_exc (bind_exc (getitem ''VirtualizationType'' (VirtualizationType ami)) (\<lambda>v. Inr (''Virtualization:  '' @ v)))) (\<lambda>_.
     io_bind (io_print_exc (bind_exc (getitem ''State'' (State ami)) (\<lambda>v. Inr (''State:           '' @ v)))) (\<lambda>_.
     io_bind (io_print (''Created:         '' @ strftime env created ''%Y-%m-%d %H:%M:%S UTC'')) (\<lambda>_.
     io_bind (io_print (''Age:             '' @ str_int age @ '' days'')) (\<lambda>_.
       (case Tags ami of
          Some (t # ts) \<Rightarrow> io_bind (io_print ''Tags:'') (\<lambda>_. print_tags (t # ts))
        | _ \<Rightarrow> io_return ()))))))))))))))"

text \<open>
  Lines 85-90: one block-device mapping.  It prints a line only when the
  mapping has the key \<^verbatim>\<open>Ebs\<close> (line 86).
\<close>

definition ebs_line :: "string \<Rightarrow> ebs \<Rightarrow> string" where
  "ebs_line device_name e =
     ''  '' @ device_name @ '': '' @
     (case VolumeSize e of None \<Rightarrow> ''N/A'' | Some n \<Rightarrow> str_int n) @ ''GB '' @
     ''('' @ get_default (VolumeType e) ''N/A'' @ '') '' @
     (if get_default (Encrypted e) False then ''Encrypted'' else ''Not Encrypted'')"

definition print_mapping :: "block_device_mapping \<Rightarrow> unit io" where
  "print_mapping mapping =
     io_bind (io_lift (getitem ''DeviceName'' (DeviceName mapping))) (\<lambda>device_name.
       (case Ebs mapping of
          Some e \<Rightarrow> io_print (ebs_line device_name e)
        | None \<Rightarrow> io_return ()))"

fun print_mappings :: "block_device_mapping list \<Rightarrow> unit io" where
  "print_mappings [] = io_return ()"
| "print_mappings (mapping # rest) = io_bind (print_mapping mapping) (\<lambda>_. print_mappings rest)"

text \<open>Lines 83-90.\<close>

definition print_block_device_mappings :: "image \<Rightarrow> unit io" where
  "print_block_device_mappings ami =
     io_bind (io_print (newline @ ''Block Device Mappings:'')) (\<lambda>_.
     print_mappings (get_default (BlockDeviceMappings ami) []))"

definition format_ami_info :: "env \<Rightarrow> nat \<Rightarrow> image \<Rightarrow> unit io" where
  "format_ami_info env k ami =
     io_bind (print_ami_fields env k ami) (\<lambda>_. print_block_device_mappings ami)"

subsection \<open>\<^verbatim>\<open>main\<close> (lines 93-121)\<close>

record args =
  region :: string
  name_pattern :: string
  owner :: string

text \<open>Lines 106-113: the verdict, with the next reading of the clock.\<close>

definition print_verdict :: "env \<Rightarrow> nat \<Rightarrow> image \<Rightarrow> unit io" where
  "print_verdict env k latest_ami =
     io_bind (io_lift (image_age env k latest_ami)) (\<lambda>(created, age).
       if age > 90 then
         io_bind (io_print (newline @ warning_sign @ ''  WARNING: This AMI is '' @ str_int age @
                            '' days old (>90 days)'')) (\<lambda>_.
         io_print ''Consider updating to a newer AMI for security compliance.'')
       else
         io_print (newline @ check_mark @ '' AMI is within 90-day rotation policy ('' @ str_int age @
                   '' days old)''))"

text \<open>Lines 116-121.\<close>

definition print_no_ami_found :: "unit io" where
  "print_no_ami_found =
     io_bind (io_print ''No AMI found matching the specified criteria.'') (\<lambda>_.
     io_bind (io_print (newline @ ''Possible reasons:'')) (\<lambda>_.
     io_bind (io_print ''- No AMIs with the specified name pattern exist'') (\<lambda>_.
     io_bind (io_print ''- AMIs might be owned by a different account'') (\<lambda>_.
     io_bind (io_print ''- AMIs might be in a different region'') (\<lambda>_.
     io_print (''- AMIs might be in '' @ py_repr ''pending'' @ '' or '' @ py_repr ''failed'' @ '' state''))))))"

text \<open>
  \<^verbatim>\<open>main\<close>, from the parsed arguments on.  An image that \<^verbatim>\<open>get_latest_ami\<close>
  returns has the key \<^verbatim>\<open>CreationDate\<close>, so as a dict it is not empty and line 103
  takes it for true.
\<close>

definition main_latest_ami :: "env \<Rightarrow> args \<Rightarrow> unit io" where
  "main_latest_ami env a =
     io_bind (io_print (''Searching for latest AMI in region: '' @ region a)) (\<lambda>_.
     io_bind (io_print (''Name pattern: '' @ name_pattern a)) (\<lambda>_.
     io_bind (io_print (''Owner: '' @ owner a)) (\<lambda>_.
     io_bind (io_print (replicate 50 CHR ''='')) (\<lambda>_.
     io_bind (get_latest_ami env (region a) (name_pattern a) (owner a)) (\<lambda>latest_ami.
       (case latest_ami of
          Some ami \<Rightarrow> io_bind (format_ami_info env 0 ami) (\<lambda>_. print_verdict env 1 ami)
        | None \<Rightarrow> print_no_ami_found))))))"

section \<open>Derived notions used in the statements\<close>

text \<open>The instant of an image's creation, when its \<^verbatim>\<open>CreationDate\<close> parses to an aware datetime.\<close>

definition creation_instant :: "env \<Rightarrow> image \<Rightarrow> int option" where
  "creation_instant env x =
     (case creation_key env x of
        Inr (Datetime w (Some off)) \<Rightarrow> Some (w - off)
      | _ \<Rightarrow> None)"

text \<open>\<^verbatim>\<open>instance['State']['Name']\<close>, when both keys are there.\<close>

definition instance_state_name :: "ec2_instance \<Rightarrow> string option" where
  "instance_state_name inst = Option.bind (instance_State inst) state_Name"

text \<open>The two lines that open every run of check\_ami.py, and the four of latest\_ami.py.\<close>

definition check_ami_banner :: "string \<Rightarrow> string list" where
  "check_ami_banner r = [''Checking EC2 instances in region: '' @ r, replicate 50 CHR ''='']"

definition latest_ami_banner :: "args \<Rightarrow> string list" where
  "latest_ami_banner a =
     [''Searching for latest AMI in region: '' @ region a,
      ''Name pattern: '' @ name_pattern a,
      ''Owner: '' @ owner a,
      replicate 50 CHR ''='']"

text \<open>The head of the AMI table (lines 111-114) and the row of an id without metadata (line 124).\<close>

definition ami_table_head :: "string list" where
  "ami_table_head =
     [newline @ ''AMI INFORMATION:'',
      replicate 80 CHR ''-'',
      ljust 15 ''AMI ID'' @ '' '' @ ljust 30 ''AMI Name'' @ '' '' @ ljust 20 ''Created'' @ '' '' @
        ljust 10 ''Age (days)'',
      replicate 80 CHR ''-'']"

definition unknown_row :: "string \<Rightarrow> string" where
  "unknown_row ami_id =
     ljust 15 ami_id @ '' '' @ ljust 30 ''Unknown'' @ '' '' @ ljust 20 ''Unknown'' @ '' '' @
     ljust 10 ''Unknown''"

definition rotation_warning_head :: "string list" where
  "rotation_warning_head =
     [newline @ warning_sign @ ''  AMI ROTATION WARNING:'',
      ''The following AMIs are older than 90 days and should be rotated:'']"

text \<open>The six lines of lines 116-121.\<close>

definition no_ami_found_lines :: "string list" where
  "no_ami_found_lines =
     [''No AMI found matching the specified criteria.'',
      newline @ ''Possible reasons:'',
      ''- No AMIs with the specified name pattern exist'',
      ''- AMIs might be owned by a different account'',
      ''- AMIs might be in a different region'',
      ''- AMIs might be in '' @ py_repr ''pending'' @ '' or '' @ py_repr ''failed'' @ '' state'']"

text \<open>
  The block-device listing as the specification words it, for a mapping that has an
  \<^verbatim>\<open>Ebs\<close> section: device name, volume size in GB or \<^verbatim>\<open>N/A\<close>, volume type or \<^verbatim>\<open>N/A\<close>, and
  the encryption label.  A mapping without the section has no line.
\<close>

definition encryption_label :: "ebs \<Rightarrow> string" where
  "encryption_label e = (if Encrypted e = Some True then ''Encrypted'' else ''Not Encrypted'')"

definition listed_entry :: "block_device_mapping \<Rightarrow> string list" where
  "listed_entry m =
     (case (DeviceName m, Ebs m) of
        (Some d, Some e) \<Rightarrow>
          [''  '' @ d @ '': '' @
           (case VolumeSize e of Some n \<Rightarrow> str_int n | None \<Rightarrow> ''N/A'') @ ''GB ('' @
           (case VolumeType e of Some t \<Rightarrow> t | None \<Rightarrow> ''N/A'') @ '') '' @
           encryption_label e]
      | _ \<Rightarrow> [])"

section \<open>Sample data\<close>

definition sample_meta :: "string \<Rightarrow> int \<Rightarrow> ami_meta" where
  "sample_meta nm age =
     \<lparr>name = nm, creation_date = Datetime 0 (Some 0),
      creation_date_str = ''1970-01-01 00:00:00 UTC'', age_days = age\<rparr>"

definition sample_ami_info :: "(string, ami_meta) dict" where
  "sample_ami_info =
     [(''ami-3'', sample_meta ''web-old'' 120),
      (''ami-1'', sample_meta ''web-edge'' 90),
      (''ami-2'', sample_meta ''web-new'' 10)]"

definition sample_root_mapping :: block_device_mapping where
  "sample_root_mapping =
     \<lparr>DeviceName = Some ''/dev/xvda'',
      Ebs = Some \<lparr>VolumeSize = Some 8, VolumeType = Some ''gp3'', Encrypted = Some True\<rparr>\<rparr>"

definition sample_data_mapping :: block_device_mapping where
  "sample_data_mapping =
     \<lparr>DeviceName = Some ''/dev/sdf'',
      Ebs = Some \<lparr>VolumeSize = None, VolumeType = None, Encrypted = None\<rparr>\<rparr>"

text \<open>An instance-store volume: a mapping with \<^verbatim>\<open>VirtualName\<close> and without \<^verbatim>\<open>Ebs\<close>.\<close>

definition sample_ephemeral_mapping :: block_device_mapping where
  "sample_ephemeral_mapping = \<lparr>DeviceName = Some ''/dev/sdb'', Ebs = None\<rparr>"

definition sample_image_jan :: image where
  "sample_image_jan =
     \<lparr>ImageId = Some ''ami-0a1'', Name = Some ''company-abc-web-2024-01'', Description = None,
      OwnerId = Some ''123456789012'', Architecture = Some ''x86_64'',
      RootDeviceType = Some ''ebs'', VirtualizationType = Some ''hvm'', State = Some ''available'',
      CreationDate = Some ''2024-01-01T00:00:00.000Z'', Tags = None,
      BlockDeviceMappings = Some [sample_root_mapping]\<rparr>"

definition sample_image_jun :: image where
  "sample_image_jun =
     \<lparr>ImageId = Some ''ami-0b2'', Name = Some ''company-abc-web-2024-06'',
      Description = Some ''June build'',
      OwnerId = Some ''123456789012'', Architecture = Some ''x86_64'',
      RootDeviceType = Some ''ebs'', VirtualizationType = Some ''hvm'', State = Some ''available'',
      CreationDate = Some ''2024-06-01T00:00:00.000Z'',
      Tags = Some [\<lparr>Key = Some ''team'', Value = Some ''web''\<rparr>],
      BlockDeviceMappings = Some [sample_root_mapping, sample_ephemeral_mapping, sample_data_mapping]\<rparr>"

definition sample_instance :: "string \<Rightarrow> string \<Rightarrow> string \<Rightarrow> ec2_instance" where
  "sample_instance instance_id ami_id state_name =
     \<lparr>InstanceId = Some instance_id, InstanceType = Some ''t3.micro'',
      instance_ImageId = Some ami_id, LaunchTime = Some (Datetime 1717200000000000 (Some 0)),
      instance_State = Some \<lparr>state_Name = Some state_name\<rparr>\<rparr>"

definition sample_instance_lists :: "ec2_instance list list" where
  "sample_instance_lists =
     [[sample_instance ''i-1'' ''ami-0a1'' ''running'',
       sample_instance ''i-2'' ''ami-0b2'' ''terminated''],
      [sample_instance ''i-3'' ''ami-0a1'' ''stopped'',
       sample_instance ''i-4'' ''ami-0c3'' ''running'']]"

definition sample_reservations :: "reservation list" where
  "sample_reservations = map (\<lambda>insts. \<lparr>Instances = Some insts\<rparr>) sample_instance_lists"

definition sample_fromisoformat :: "string \<Rightarrow> py_error + pydatetime" where
  "sample_fromisoformat s =
     (case map_of [(''2024-01-01T00:00:00.000+00:00'', 1704067200000000),
                   (''2024-06-01T00:00:00.000+00:00'', 1717200000000000)] s of
        Some t \<Rightarrow> Inr (Datetime t (Some 0))
      | None \<Rightarrow> Inl (Exc ValueError (''Invalid isoformat string: '' @ py_repr s)))"

definition sample_strftime :: "pydatetime \<Rightarrow> string \<Rightarrow> string" where
  "sample_strftime d fmt =
     (case map_of [(1704067200000000, ''2024-01-01 00:00:00''),
                   (1717200000000000, ''2024-06-01 00:00:00'')] (wall d) of
        Some s \<Rightarrow> s @ drop 17 fmt
      | None \<Rightarrow> fmt)"

text \<open>
  A run on 2024-07-15 09:00 UTC in an account with two images, four instances,
  and one instance on an image that is no longer registered (\<^verbatim>\<open>ami-0c3\<close>).
\<close>

definition sample_env :: env where
  "sample_env =
     \<lparr>boto3_client = (\<lambda>r. None),
      describe_instances = (\<lambda>r. Inr \<lparr>Reservations = Some sample_reservations\<rparr>),
      describe_images = (\<lambda>r request.
        case request of
          ByImageIds ids \<Rightarrow>
            Inr \<lparr>Images = Some (filter (\<lambda>img. case ImageId img of Some i \<Rightarrow> i \<in> set ids | None \<Rightarrow> False)
                                   [sample_image_jan, sample_image_jun])\<rparr>
        | ByOwnersFilters owners filters \<Rightarrow> Inr \<lparr>Images = Some [sample_image_jan, sample_image_jun]\<rparr>),
      now = (\<lambda>k. 1721034000000000 + int k),
      fromisoformat = sample_fromisoformat,
      strftime = sample_strftime,
      str_hash = (\<lambda>s. if s = ''ami-0c3'' then 0 else 1)\<rparr>"

text \<open>The same account when no image matches, and when every remote call fails.\<close>

definition no_match_env :: env where
  "no_match_env = sample_env\<lparr>describe_images := (\<lambda>r request. Inr \<lparr>Images = Some []\<rparr>)\<rparr>"

definition sample_failure :: py_error where
  "sample_failure = Exc SdkError ''Could not connect to the endpoint URL''"

definition failing_env :: env where
  "failing_env =
     sample_env\<lparr>describe_instances := (\<lambda>r. Inl sample_failure),
                describe_images := (\<lambda>r request. Inl sample_failure)\<rparr>"

text \<open>The same account on 2024-02-01 09:00 UTC, when its January image is 31 days old.\<close>

definition february_env :: env where
  "february_env = sample_env\<lparr>now := (\<lambda>k. 1706778000000000 + int k)\<rparr>"

text \<open>What a run on \<open>february_env\<close> fetches: the instances, the image ids, the metadata.\<close>

definition sample_retained :: "ec2_instance list" where
  "sample_retained =
     [sample_instance ''i-1'' ''ami-0a1'' ''running'',
      sample_instance ''i-3'' ''ami-0a1'' ''stopped'',
      sample_instance ''i-4'' ''ami-0c3'' ''running'']"

definition sample_ami_ids :: "string list" where
  "sample_ami_ids = [''ami-0c3'', ''ami-0a1'']"

definition sample_fetched_info :: "(string, ami_meta) dict" where
  "sample_fetched_info =
     [(''ami-0a1'',
       \<lparr>name = ''company-abc-web-2024-01'',
        creation_date = Datetime 1704067200000000 (Some 0),
        creation_date_str = ''2024-01-01 00:00:00 UTC'',
        age_days = 31\<rparr>)]"

definition sample_args :: args where
  "sample_args = \<lparr>region = ''eu-west-1'', name_pattern = ''*company-abc*'', owner = ''self''\<rparr>"

section \<open>Properties of the rotation check\<close>

lemma check_ami_rotation_loop_filter:
  "check_ami_rotation_loop d t acc = acc @ map fst (filter (\<lambda>p. t < age_days (snd p)) d)"
  by (induction d t acc rule: check_ami_rotation_loop.induct) auto

lemma check_ami_rotation_filter:
  "check_ami_rotation d t = map fst (filter (\<lambda>p. t < age_days (snd p)) d)"
  by (simp add: check_ami_rotation_def check_ami_rotation_loop_filter)

lemma check_ami_rotation_mem:
  "is_dict d \<Longrightarrow>
   k \<in> set (check_ami_rotation d t) \<longleftrightarrow> (\<exists>info. dict_get d k = Some info \<and> t < age_days info)"
  by (force simp: check_ami_rotation_filter is_dict_def dict_keys_def dict_get_def)

lemma check_ami_rotation_distinct:
  "is_dict d \<Longrightarrow> distinct (check_ami_rotation d t)"
  by (simp add: check_ami_rotation_filter is_dict_def dict_keys_def distinct_map_filter)

lemma check_ami_rotation_mem_entry:
  "k \<in> set (check_ami_rotation d t) \<longleftrightarrow> (\<exists>info. (k, info) \<in> set d \<and> t < age_days info)"
  by (force simp: check_ami_rotation_filter)

text \<open>
  Claim C2.  For every metadata dict and every threshold, \<^verbatim>\<open>check_ami_rotation\<close> returns
  exactly the image ids whose age in days is strictly greater than the threshold, each once:
  an image aged exactly the threshold is left out, and so is every id that is not a key of
  the dict.  The function takes the dict and the threshold only and returns a list: it reads
  nothing else and has no outcome but that list.  The default threshold is 90.
\<close>

theorem check_ami_rotation_exact:
  assumes "is_dict ami_info"
  shows "set (check_ami_rotation ami_info rotation_days) =
           {ami_id. \<exists>info. dict_get ami_info ami_id = Some info \<and> rotation_days < age_days info}
         \<and> distinct (check_ami_rotation ami_info rotation_days)
         \<and> (\<forall>ami_id info. dict_get ami_info ami_id = Some info \<and> age_days info = rotation_days
               \<longrightarrow> ami_id \<notin> set (check_ami_rotation ami_info rotation_days))
         \<and> (\<forall>ami_id. dict_get ami_info ami_id = None
               \<longrightarrow> ami_id \<notin> set (check_ami_rotation ami_info rotation_days))
         \<and> rotation_days_default = 90"
proof -
  have mem: "\<And>k. k \<in> set (check_ami_rotation ami_info rotation_days) \<longleftrightarrow>
      (\<exists>info. dict_get ami_info k = Some info \<and> rotation_days < age_days info)"
    using assms by (rule check_ami_rotation_mem)
  have "set (check_ami_rotation ami_info rotation_days) =
           {ami_id. \<exists>info. dict_get ami_info ami_id = Some info \<and> rotation_days < age_days info}"
    using mem by blast
  moreover have "distinct (check_ami_rotation ami_info rotation_days)"
    using assms by (rule check_ami_rotation_distinct)
  moreover have "\<forall>ami_id info. dict_get ami_info ami_id = Some info \<and> age_days info = rotation_days
               \<longrightarrow> ami_id \<notin> set (check_ami_rotation ami_info rotation_days)"
    using mem by auto
  moreover have "\<forall>ami_id. dict_get ami_info ami_id = None
               \<longrightarrow> ami_id \<notin> set (check_ami_rotation ami_info rotation_days)"
    using mem by auto
  ultimately show ?thesis by (simp add: rotation_days_default_def)
qed

theorem check_ami_rotation_exact_witness:
  "is_dict sample_ami_info
   \<and> set (check_ami_rotation sample_ami_info 90) =
       {ami_id. \<exists>info. dict_get sample_ami_info ami_id = Some info \<and> 90 < age_days info}
   \<and> check_ami_rotation sample_ami_info 90 = [''ami-3'']
   \<and> dict_get sample_ami_info ''ami-1'' = Some (sample_meta ''web-edge'' 90)
   \<and> ''ami-1'' \<notin> set (check_ami_rotation sample_ami_info 90)"
proof -
  have d: "is_dict sample_ami_info"
    by (simp add: is_dict_def dict_keys_def sample_ami_info_def)
  have e: "check_ami_rotation sample_ami_info 90 = [''ami-3'']"
    by (simp add: check_ami_rotation_def sample_ami_info_def sample_meta_def)
  have g: "dict_get sample_ami_info ''ami-1'' = Some (sample_meta ''web-edge'' 90)"
    by (simp add: dict_get_def sample_ami_info_def)
  have n: "''ami-1'' \<notin> set (check_ami_rotation sample_ami_info 90)"
    by (simp add: e)
  have s: "set (check_ami_rotation sample_ami_info 90) =
       {ami_id. \<exists>info. dict_get sample_ami_info ami_id = Some info \<and> 90 < age_days info}"
    using check_ami_rotation_exact [OF d, of 90] by (rule conjunct1)
  show ?thesis
    using d s e g n by blast
qed

text \<open>
  Claim C4.  The rotation check is monotonic in the threshold: for thresholds \<open>t1 \<le> t2\<close>
  every id expired at \<open>t2\<close> is expired at \<open>t1\<close>; and at threshold 0 every image whose age
  is greater than 0 is expired.
\<close>

theorem check_ami_rotation_antitone:
  "(t1 \<le> t2 \<longrightarrow> set (check_ami_rotation ami_info t2) \<subseteq> set (check_ami_rotation ami_info t1))
   \<and> (dict_get ami_info ami_id = Some info \<and> 0 < age_days info
        \<longrightarrow> ami_id \<in> set (check_ami_rotation ami_info 0))"
proof (intro conjI impI)
  assume "t1 \<le> t2"
  then show "set (check_ami_rotation ami_info t2) \<subseteq> set (check_ami_rotation ami_info t1)"
    by (fastforce simp: check_ami_rotation_mem_entry)
next
  assume "dict_get ami_info ami_id = Some info \<and> 0 < age_days info"
  then have "(ami_id, info) \<in> set ami_info" and "0 < age_days info"
    by (auto simp: dict_get_def dest: map_of_SomeD)
  then show "ami_id \<in> set (check_ami_rotation ami_info 0)"
    unfolding check_ami_rotation_mem_entry by blast
qed

theorem check_ami_rotation_antitone_witness:
  "(30::int) \<le> 90
   \<and> set (check_ami_rotation sample_ami_info 90) \<subseteq> set (check_ami_rotation sample_ami_info 30)
   \<and> check_ami_rotation sample_ami_info 30 = [''ami-3'', ''ami-1'']
   \<and> dict_get sample_ami_info ''ami-2'' = Some (sample_meta ''web-new'' 10)
   \<and> 0 < age_days (sample_meta ''web-new'' 10)
   \<and> ''ami-2'' \<in> set (check_ami_rotation sample_ami_info 0)"
proof -
  have g: "dict_get sample_ami_info ''ami-2'' = Some (sample_meta ''web-new'' 10)"
    by (simp add: dict_get_def sample_ami_info_def)
  have a: "0 < age_days (sample_meta ''web-new'' 10)"
    by (simp add: sample_meta_def)
  have e: "check_ami_rotation sample_ami_info 30 = [''ami-3'', ''ami-1'']"
    by (simp add: check_ami_rotation_def sample_ami_info_def sample_meta_def)
  show ?thesis
    using check_ami_rotation_antitone [of 30 90 sample_ami_info "''ami-2''" "sample_meta ''web-new'' 10"] g a e
    by simp
qed

section \<open>Laws of the printing computations\<close>

lemma io_bind_Inr: "io_bind (out, Inr x) f = (out @ fst (f x), snd (f x))"
  by (simp add: io_bind_def split: prod.splits)

lemma io_bind_Inl: "io_bind (out, Inl e) f = (out, Inl e)"
  by (simp add: io_bind_def)

lemmas io_simps = io_bind_Inr io_bind_Inl io_print_def io_return_def io_raise_def io_lift_def

lemma bind_exc_Inr: "bind_exc (Inr x) f = f x"
  by (simp add: bind_exc_def)

lemma bind_exc_Inl: "bind_exc (Inl e) f = Inl e"
  by (simp add: bind_exc_def)

lemma print_no_ami_found_lines: "print_no_ami_found = (no_ami_found_lines, Inr ())"
  by (simp add: print_no_ami_found_def no_ami_found_lines_def io_simps)

section \<open>The empty fetch of check\_ami.py\<close>

text \<open>
  Claim C10.  When the instance fetch yields the empty list, because no instance is left
  after the terminated ones are dropped or because the fetch failed and printed its
  diagnostic, \<^verbatim>\<open>main\<close> of check\_ami.py prints, after the two banner lines and whatever the
  fetch printed, the one line \<^verbatim>\<open>No EC2 instances found or error occurred.\<close> and returns:
  no summary, no instance table, no AMI table and no rotation section follow.
\<close>

theorem main_check_ami_no_instances:
  assumes "get_ec2_instances env r = (log, Inr [])"
  shows "main_check_ami env r =
           (check_ami_banner r @ log @ [''No EC2 instances found or error occurred.''], Inr ())"
  using assms
  by (simp add: main_check_ami_def check_ami_banner_def io_simps)

lemma get_ec2_instances_failed:
  "boto3_client env r = None \<Longrightarrow> get_ec2_instances_try env r = Inl e \<Longrightarrow>
   get_ec2_instances env r = ([''Error fetching EC2 instances: '' @ exc_str e], Inr [])"
  by (simp add: get_ec2_instances_def io_simps)

lemma get_ec2_instances_fetched:
  "boto3_client env r = None \<Longrightarrow> get_ec2_instances_try env r = Inr instances \<Longrightarrow>
   get_ec2_instances env r = ([], Inr instances)"
  by (simp add: get_ec2_instances_def io_simps)

theorem main_check_ami_no_instances_witness:
  "get_ec2_instances failing_env ''eu-west-1'' =
     ([''Error fetching EC2 instances: Could not connect to the endpoint URL''], Inr [])
   \<and> main_check_ami failing_env ''eu-west-1'' =
       ([''Checking EC2 instances in region: eu-west-1'', replicate 50 CHR ''='',
         ''Error fetching EC2 instances: Could not connect to the endpoint URL'',
         ''No EC2 instances found or error occurred.''], Inr ())"
proof -
  have c: "boto3_client failing_env ''eu-west-1'' = None"
    by (simp add: failing_env_def sample_env_def)
  have t: "get_ec2_instances_try failing_env ''eu-west-1'' = Inl sample_failure"
    by (simp add: get_ec2_instances_try_def failing_env_def bind_exc_Inl)
  have g: "get_ec2_instances failing_env ''eu-west-1'' =
     ([''Error fetching EC2 instances: Could not connect to the endpoint URL''], Inr [])"
    using get_ec2_instances_failed [OF c t] by (simp add: sample_failure_def)
  show ?thesis
    using main_check_ami_no_instances [OF g] g by (simp add: check_ami_banner_def)
qed

section \<open>No image found in latest\_ami.py\<close>

text \<open>
  Claim C5, amended.  Whenever the latest-image lookup yields none, \<^verbatim>\<open>main\<close> of
  latest\_ami.py prints, after its banner and whatever the lookup printed, the
  \<^verbatim>\<open>No AMI found\<close> message, the \<^verbatim>\<open>Possible reasons:\<close> heading and the four reasons of lines
  118-121 (six \<^verbatim>\<open>print\<close> calls), and no detail block.
\<close>

theorem main_latest_ami_none:
  assumes "get_latest_ami env (region a) (name_pattern a) (owner a) = (log, Inr None)"
  shows "main_latest_ami env a = (latest_ami_banner a @ log @ no_ami_found_lines, Inr ())
         \<and> length no_ami_found_lines = 6"
  using assms
  by (simp add: main_latest_ami_def latest_ami_banner_def io_simps print_no_ami_found_lines)
    (simp add: no_ami_found_lines_def)


lemma get_latest_ami_no_match:
  "get_latest_ami no_match_env (region sample_args) (name_pattern sample_args) (owner sample_args) =
     ([], Inr None)"
  by (simp add: get_latest_ami_def get_latest_ami_try_def no_match_env_def sample_env_def
      sample_args_def getitem_def bind_exc_def io_simps)

theorem main_latest_ami_none_witness:
  "get_latest_ami no_match_env (region sample_args) (name_pattern sample_args) (owner sample_args) =
     ([], Inr None)
   \<and> main_latest_ami no_match_env sample_args =
       (latest_ami_banner sample_args @ no_ami_found_lines, Inr ())"
  using main_latest_ami_none [OF get_latest_ami_no_match] get_latest_ami_no_match by simp

text \<open>
  Claim C5 as stated speaks of three possible-reasons lines.  When no image matches, the
  output is not the banner, the message, the heading and three more lines: the source
  prints four reasons.
\<close>

theorem no_ami_found_three_reasons_counterexample:
  "\<not> (\<exists>l1 l2 l3. fst (main_latest_ami no_match_env sample_args) =
         latest_ami_banner sample_args @
         [''No AMI found matching the specified criteria.'', newline @ ''Possible reasons:'',
          l1, l2, l3])"
proof -
  have "fst (main_latest_ami no_match_env sample_args) =
          latest_ami_banner sample_args @ no_ami_found_lines"
    by (simp add: main_latest_ami_def latest_ami_banner_def io_simps get_latest_ami_no_match
        print_no_ami_found_lines)
  then show ?thesis
    by (simp add: no_ami_found_lines_def)
qed

section \<open>Failures of the remote calls\<close>

lemma get_ami_info_call_failed:
  "boto3_client env r = None \<Longrightarrow> ami_ids \<noteq> [] \<Longrightarrow>
   describe_images env r (ByImageIds ami_ids) = Inl e \<Longrightarrow>
   get_ami_info env r ami_ids = ([''Error fetching AMI information: '' @ exc_str e], Inr [])"
  by (simp add: get_ami_info_def bind_exc_Inl io_simps)

lemma get_ami_info_returns:
  "boto3_client env r = None \<Longrightarrow> \<exists>out v. get_ami_info env r ami_ids = (out, Inr v)"
  by (simp add: get_ami_info_def io_simps split: sum.splits prod.splits option.splits)

lemma get_latest_ami_failed:
  "boto3_client env r = None \<Longrightarrow> get_latest_ami_try env r pat own = Inl e \<Longrightarrow>
   get_latest_ami env r pat own = ([''Error fetching AMI information: '' @ exc_str e], Inr None)"
  by (simp add: get_latest_ami_def io_simps)

lemma get_latest_ami_found:
  "boto3_client env r = None \<Longrightarrow> get_latest_ami_try env r pat own = Inr v \<Longrightarrow>
   get_latest_ami env r pat own = ([], Inr v)"
  by (simp add: get_latest_ami_def io_simps)

text \<open>
  Claim C3.  Once the client is built (it is built before each \<^verbatim>\<open>try\<close>), a failure of the
  remote call never reaches the caller: \<^verbatim>\<open>get_ec2_instances\<close> prints one diagnostic and
  returns the empty list, \<^verbatim>\<open>get_ami_info\<close> prints one diagnostic and returns the dict it
  had filled, which is empty, and \<^verbatim>\<open>get_latest_ami\<close> prints one diagnostic and returns
  none.  Whatever the remote call does, each of the three returns a value.
\<close>

theorem remote_failures_are_caught:
  assumes "boto3_client env r = None"
  shows "(describe_instances env r = Inl e \<longrightarrow>
            get_ec2_instances env r = ([''Error fetching EC2 instances: '' @ exc_str e], Inr []))
       \<and> (ami_ids \<noteq> [] \<and> describe_images env r (ByImageIds ami_ids) = Inl e \<longrightarrow>
            get_ami_info env r ami_ids = ([''Error fetching AMI information: '' @ exc_str e], Inr []))
       \<and> (describe_images env r
             (ByOwnersFilters [own] [(''name'', [pat]), (''state'', [''available''])]) = Inl e \<longrightarrow>
            get_latest_ami env r pat own = ([''Error fetching AMI information: '' @ exc_str e], Inr None))
       \<and> (\<exists>out v. get_ec2_instances env r = (out, Inr v))
       \<and> (\<exists>out v. get_ami_info env r ami_ids = (out, Inr v))
       \<and> (\<exists>out v. get_latest_ami env r pat own = (out, Inr v))"
proof (intro conjI impI)
  assume "describe_instances env r = Inl e"
  then have "get_ec2_instances_try env r = Inl e"
    by (simp add: get_ec2_instances_try_def bind_exc_Inl)
  with assms show "get_ec2_instances env r = ([''Error fetching EC2 instances: '' @ exc_str e], Inr [])"
    by (rule get_ec2_instances_failed)
next
  assume "ami_ids \<noteq> [] \<and> describe_images env r (ByImageIds ami_ids) = Inl e"
  with assms show "get_ami_info env r ami_ids = ([''Error fetching AMI information: '' @ exc_str e], Inr [])"
    by (simp add: get_ami_info_call_failed)
next
  assume "describe_images env r
             (ByOwnersFilters [own] [(''name'', [pat]), (''state'', [''available''])]) = Inl e"
  then have "get_latest_ami_try env r pat own = Inl e"
    by (simp add: get_latest_ami_try_def bind_exc_Inl)
  with assms show "get_latest_ami env r pat own = ([''Error fetching AMI information: '' @ exc_str e], Inr None)"
    by (rule get_latest_ami_failed)
next
  show "\<exists>out v. get_ec2_instances env r = (out, Inr v)"
    using assms by (cases "get_ec2_instances_try env r")
      (simp_all add: get_ec2_instances_failed get_ec2_instances_fetched)
next
  show "\<exists>out v. get_ami_info env r ami_ids = (out, Inr v)"
    using assms by (rule get_ami_info_returns)
next
  show "\<exists>out v. get_latest_ami env r pat own = (out, Inr v)"
    using assms by (cases "get_latest_ami_try env r pat own")
      (simp_all add: get_latest_ami_failed get_latest_ami_found)
qed

theorem remote_failures_are_caught_witness:
  "boto3_client failing_env ''eu-west-1'' = None
   \<and> describe_instances failing_env ''eu-west-1'' = Inl sample_failure
   \<and> describe_images failing_env ''eu-west-1'' (ByImageIds [''ami-0a1'']) = Inl sample_failure
   \<and> describe_images failing_env ''eu-west-1''
        (ByOwnersFilters [''self''] [(''name'', [''*company-abc*'']), (''state'', [''available''])]) =
       Inl sample_failure
   \<and> get_ec2_instances failing_env ''eu-west-1'' =
       ([''Error fetching EC2 instances: Could not connect to the endpoint URL''], Inr [])
   \<and> get_ami_info failing_env ''eu-west-1'' [''ami-0a1''] =
       ([''Error fetching AMI information: Could not connect to the endpoint URL''], Inr [])
   \<and> get_latest_ami failing_env ''eu-west-1'' ''*company-abc*'' ''self'' =
       ([''Error fetching AMI information: Could not connect to the endpoint URL''], Inr None)"
proof -
  have c: "boto3_client failing_env ''eu-west-1'' = None"
    by (simp add: failing_env_def sample_env_def)
  have i: "describe_instances failing_env ''eu-west-1'' = Inl sample_failure"
    by (simp add: failing_env_def)
  have a: "describe_images failing_env ''eu-west-1'' (ByImageIds [''ami-0a1'']) = Inl sample_failure"
    by (simp add: failing_env_def)
  have l: "describe_images failing_env ''eu-west-1''
        (ByOwnersFilters [''self''] [(''name'', [''*company-abc*'']), (''state'', [''available''])]) =
       Inl sample_failure"
    by (simp add: failing_env_def)
  have s: "exc_str sample_failure = ''Could not connect to the endpoint URL''"
    by (simp add: sample_failure_def)
  show ?thesis
    using remote_failures_are_caught [OF c, of sample_failure "[''ami-0a1'']" "''self''" "''*company-abc*''"]
      c i a l s
    by simp
qed


section \<open>The latest image\<close>

lemma creation_instant_SomeD:
  "creation_instant env x = Some t \<Longrightarrow> \<exists>w off. creation_key env x = Inr (Datetime w (Some off)) \<and> t = w - off"
  by (auto simp: creation_instant_def split: sum.splits pydatetime.splits option.splits)

lemma dt_gt_aware:
  "dt_gt (Datetime w (Some off)) (Datetime w' (Some off')) = Inr (w' - off' < w - off)"
  by (simp add: dt_gt_def)

lemma py_max_loop_first_maximum:
  assumes "\<forall>y\<in>set rest. creation_instant env y \<noteq> None"
    and "creation_key env m = Inr (Datetime w (Some off))"
  shows "\<exists>x. py_max_loop (creation_key env) rest m (Datetime w (Some off)) = Inr x \<and>
           ((x = m \<and> (\<forall>y\<in>set rest. \<exists>u. creation_instant env y = Some u \<and> u \<le> w - off)) \<or>
            (\<exists>pre post t. rest = pre @ x # post \<and> creation_instant env x = Some t \<and> w - off < t \<and>
               (\<forall>y\<in>set pre. \<exists>u. creation_instant env y = Some u \<and> u < t) \<and>
               (\<forall>y\<in>set post. \<exists>u. creation_instant env y = Some u \<and> u \<le> t)))"
  using assms
proof (induction rest arbitrary: m w off)
  case Nil
  then show ?case by simp
next
  case (Cons a rest)
  from Cons.prems(1) obtain ta where ta: "creation_instant env a = Some ta"
    by auto
  then obtain wa oa where ka: "creation_key env a = Inr (Datetime wa (Some oa))" and ta_eq: "ta = wa - oa"
    by (auto dest: creation_instant_SomeD)
  from Cons.prems(1) have rest_ok: "\<forall>y\<in>set rest. creation_instant env y \<noteq> None"
    by simp
  show ?case
  proof (cases "w - off < ta")
    case True
    then have step: "py_max_loop (creation_key env) (a # rest) m (Datetime w (Some off)) =
        py_max_loop (creation_key env) rest a (Datetime wa (Some oa))"
      by (simp add: ka dt_gt_aware ta_eq)
    from Cons.IH [OF rest_ok ka] obtain x where
      x: "py_max_loop (creation_key env) rest a (Datetime wa (Some oa)) = Inr x" and
      alt: "(x = a \<and> (\<forall>y\<in>set rest. \<exists>u. creation_instant env y = Some u \<and> u \<le> wa - oa)) \<or>
            (\<exists>pre post t. rest = pre @ x # post \<and> creation_instant env x = Some t \<and> wa - oa < t \<and>
               (\<forall>y\<in>set pre. \<exists>u. creation_instant env y = Some u \<and> u < t) \<and>
               (\<forall>y\<in>set post. \<exists>u. creation_instant env y = Some u \<and> u \<le> t))"
      by blast
    from alt have "\<exists>pre post t. a # rest = pre @ x # post \<and> creation_instant env x = Some t \<and> w - off < t \<and>
               (\<forall>y\<in>set pre. \<exists>u. creation_instant env y = Some u \<and> u < t) \<and>
               (\<forall>y\<in>set post. \<exists>u. creation_instant env y = Some u \<and> u \<le> t)"
    proof
      assume h: "x = a \<and> (\<forall>y\<in>set rest. \<exists>u. creation_instant env y = Some u \<and> u \<le> wa - oa)"
      then have "a # rest = [] @ x # rest \<and> creation_instant env x = Some ta \<and> w - off < ta \<and>
               (\<forall>y\<in>set []. \<exists>u. creation_instant env y = Some u \<and> u < ta) \<and>
               (\<forall>y\<in>set rest. \<exists>u. creation_instant env y = Some u \<and> u \<le> ta)"
        using ta True ta_eq by simp
      then show ?thesis by blast
    next
      assume "\<exists>pre post t. rest = pre @ x # post \<and> creation_instant env x = Some t \<and> wa - oa < t \<and>
               (\<forall>y\<in>set pre. \<exists>u. creation_instant env y = Some u \<and> u < t) \<and>
               (\<forall>y\<in>set post. \<exists>u. creation_instant env y = Some u \<and> u \<le> t)"
      then obtain pre post t where
        d: "rest = pre @ x # post" and tx: "creation_instant env x = Some t" and lt: "wa - oa < t" and
        p: "\<forall>y\<in>set pre. \<exists>u. creation_instant env y = Some u \<and> u < t" and
        q: "\<forall>y\<in>set post. \<exists>u. creation_instant env y = Some u \<and> u \<le> t"
        by blast
      have "a # rest = (a # pre) @ x # post \<and> creation_instant env x = Some t \<and> w - off < t \<and>
               (\<forall>y\<in>set (a # pre). \<exists>u. creation_instant env y = Some u \<and> u < t) \<and>
               (\<forall>y\<in>set post. \<exists>u. creation_instant env y = Some u \<and> u \<le> t)"
        using d tx lt p q ta ta_eq True by simp
      then show ?thesis by blast
    qed
    with step x show ?thesis by auto
  next
    case False
    then have step: "py_max_loop (creation_key env) (a # rest) m (Datetime w (Some off)) =
        py_max_loop (creation_key env) rest m (Datetime w (Some off))"
      by (simp add: ka dt_gt_aware ta_eq)
    from Cons.IH [OF rest_ok Cons.prems(2)] obtain x where
      x: "py_max_loop (creation_key env) rest m (Datetime w (Some off)) = Inr x" and
      alt: "(x = m \<and> (\<forall>y\<in>set rest. \<exists>u. creation_instant env y = Some u \<and> u \<le> w - off)) \<or>
            (\<exists>pre post t. rest = pre @ x # post \<and> creation_instant env x = Some t \<and> w - off < t \<and>
               (\<forall>y\<in>set pre. \<exists>u. creation_instant env y = Some u \<and> u < t) \<and>
               (\<forall>y\<in>set post. \<exists>u. creation_instant env y = Some u \<and> u \<le> t))"
      by blast
    from alt have "(x = m \<and> (\<forall>y\<in>set (a # rest). \<exists>u. creation_instant env y = Some u \<and> u \<le> w - off)) \<or>
            (\<exists>pre post t. a # rest = pre @ x # post \<and> creation_instant env x = Some t \<and> w - off < t \<and>
               (\<forall>y\<in>set pre. \<exists>u. creation_instant env y = Some u \<and> u < t) \<and>
               (\<forall>y\<in>set post. \<exists>u. creation_instant env y = Some u \<and> u \<le> t))"
    proof
      assume "x = m \<and> (\<forall>y\<in>set rest. \<exists>u. creation_instant env y = Some u \<and> u \<le> w - off)"
      then show ?thesis using ta False by simp
    next
      assume "\<exists>pre post t. rest = pre @ x # post \<and> creation_instant env x = Some t \<and> w - off < t \<and>
               (\<forall>y\<in>set pre. \<exists>u. creation_instant env y = Some u \<and> u < t) \<and>
               (\<forall>y\<in>set post. \<exists>u. creation_instant env y = Some u \<and> u \<le> t)"
      then obtain pre post t where
        d: "rest = pre @ x # post" and tx: "creation_instant env x = Some t" and lt: "w - off < t" and
        p: "\<forall>y\<in>set pre. \<exists>u. creation_instant env y = Some u \<and> u < t" and
        q: "\<forall>y\<in>set post. \<exists>u. creation_instant env y = Some u \<and> u \<le> t"
        by blast
      have "a # rest = (a # pre) @ x # post \<and> creation_instant env x = Some t \<and> w - off < t \<and>
               (\<forall>y\<in>set (a # pre). \<exists>u. creation_instant env y = Some u \<and> u < t) \<and>
               (\<forall>y\<in>set post. \<exists>u. creation_instant env y = Some u \<and> u \<le> t)"
        using d tx lt p q ta False by simp
      then show ?thesis by blast
    qed
    with step x show ?thesis by auto
  qed
qed

lemma py_max_first_maximum:
  assumes "images \<noteq> []" and "\<forall>y\<in>set images. creation_instant env y \<noteq> None"
  shows "\<exists>pre x post t. images = pre @ x # post \<and> py_max (creation_key env) images = Inr x \<and>
           creation_instant env x = Some t \<and>
           (\<forall>y\<in>set pre. \<exists>u. creation_instant env y = Some u \<and> u < t) \<and>
           (\<forall>y\<in>set post. \<exists>u. creation_instant env y = Some u \<and> u \<le> t)"
proof -
  from assms(1) obtain m rest where images: "images = m # rest"
    by (cases images) auto
  from assms(2) images obtain tm where tm: "creation_instant env m = Some tm"
    by auto
  then obtain w off where km: "creation_key env m = Inr (Datetime w (Some off))" and tm_eq: "tm = w - off"
    by (auto dest: creation_instant_SomeD)
  from assms(2) images have rest_ok: "\<forall>y\<in>set rest. creation_instant env y \<noteq> None"
    by simp
  have start: "py_max (creation_key env) images = py_max_loop (creation_key env) rest m (Datetime w (Some off))"
    by (simp add: py_max_def images km)
  from py_max_loop_first_maximum [OF rest_ok km] obtain x where
    x: "py_max_loop (creation_key env) rest m (Datetime w (Some off)) = Inr x" and
    alt: "(x = m \<and> (\<forall>y\<in>set rest. \<exists>u. creation_instant env y = Some u \<and> u \<le> w - off)) \<or>
            (\<exists>pre post t. rest = pre @ x # post \<and> creation_instant env x = Some t \<and> w - off < t \<and>
               (\<forall>y\<in>set pre. \<exists>u. creation_instant env y = Some u \<and> u < t) \<and>
               (\<forall>y\<in>set post. \<exists>u. creation_instant env y = Some u \<and> u \<le> t))"
    by blast
  from alt show ?thesis
  proof
    assume "x = m \<and> (\<forall>y\<in>set rest. \<exists>u. creation_instant env y = Some u \<and> u \<le> w - off)"
    then have "images = [] @ x # rest \<and> py_max (creation_key env) images = Inr x \<and>
           creation_instant env x = Some tm \<and>
           (\<forall>y\<in>set []. \<exists>u. creation_instant env y = Some u \<and> u < tm) \<and>
           (\<forall>y\<in>set rest. \<exists>u. creation_instant env y = Some u \<and> u \<le> tm)"
      using images start x tm tm_eq by simp
    then show ?thesis by blast
  next
    assume "\<exists>pre post t. rest = pre @ x # post \<and> creation_instant env x = Some t \<and> w - off < t \<and>
               (\<forall>y\<in>set pre. \<exists>u. creation_instant env y = Some u \<and> u < t) \<and>
               (\<forall>y\<in>set post. \<exists>u. creation_instant env y = Some u \<and> u \<le> t)"
    then obtain pre post t where
      d: "rest = pre @ x # post" and tx: "creation_instant env x = Some t" and lt: "w - off < t" and
      p: "\<forall>y\<in>set pre. \<exists>u. creation_instant env y = Some u \<and> u < t" and
      q: "\<forall>y\<in>set post. \<exists>u. creation_instant env y = Some u \<and> u \<le> t"
      by blast
    have "images = (m # pre) @ x # post \<and> py_max (creation_key env) images = Inr x \<and>
           creation_instant env x = Some t \<and>
           (\<forall>y\<in>set (m # pre). \<exists>u. creation_instant env y = Some u \<and> u < t) \<and>
           (\<forall>y\<in>set post. \<exists>u. creation_instant env y = Some u \<and> u \<le> t)"
      using images start x d tx lt p q tm tm_eq by simp
    then show ?thesis by blast
  qed
qed


lemma py_max_two:
  assumes "creation_instant env a = Some t1" and "creation_instant env b = Some t2"
  shows "py_max (creation_key env) [a, b] = Inr (if t1 < t2 then b else a)"
proof -
  from assms(1) obtain wa oa where a: "creation_key env a = Inr (Datetime wa (Some oa))" "t1 = wa - oa"
    by (auto dest: creation_instant_SomeD)
  from assms(2) obtain wb ob where b: "creation_key env b = Inr (Datetime wb (Some ob))" "t2 = wb - ob"
    by (auto dest: creation_instant_SomeD)
  show ?thesis
    by (simp add: py_max_def a b dt_gt_aware)
qed

lemma get_latest_ami_try_images:
  assumes "describe_images env r
             (ByOwnersFilters [own] [(''name'', [pat]), (''state'', [''available''])]) = Inr response"
    and "Images response = Some images"
  shows "get_latest_ami_try env r pat own =
           (if images = [] then Inr None
            else bind_exc (py_max (creation_key env) images) (\<lambda>latest_ami. Inr (Some latest_ami)))"
  using assms by (simp add: get_latest_ami_try_def bind_exc_Inr getitem_def)

text \<open>
  Claim C1.  When the filtered query answers with a list of images, \<^verbatim>\<open>get_latest_ami\<close>
  returns none for the empty list; for a non-empty list of images whose creation dates parse
  to aware datetimes it returns the first image of the list whose creation instant is the
  greatest: every image before it is strictly older, every image after it is not newer.
  In particular, of two images created at \<open>ta < tb\<close>, in either order, the one created at
  \<open>tb\<close> is returned.
\<close>

theorem get_latest_ami_selects_latest:
  assumes "boto3_client env r = None"
    and "describe_images env r
           (ByOwnersFilters [own] [(''name'', [pat]), (''state'', [''available''])]) = Inr response"
    and "Images response = Some images"
  shows "(images = [] \<longrightarrow> get_latest_ami env r pat own = ([], Inr None))
       \<and> (images \<noteq> [] \<and> (\<forall>y\<in>set images. creation_instant env y \<noteq> None) \<longrightarrow>
            (\<exists>pre x post t.
               images = pre @ x # post \<and>
               get_latest_ami env r pat own = ([], Inr (Some x)) \<and>
               creation_instant env x = Some t \<and>
               (\<forall>y\<in>set pre. \<exists>u. creation_instant env y = Some u \<and> u < t) \<and>
               (\<forall>y\<in>set post. \<exists>u. creation_instant env y = Some u \<and> u \<le> t)))
       \<and> (\<forall>a b ta tb.
            creation_instant env a = Some ta \<and> creation_instant env b = Some tb \<and> ta < tb \<and>
            (images = [a, b] \<or> images = [b, a]) \<longrightarrow>
            get_latest_ami env r pat own = ([], Inr (Some b)))"
proof (intro conjI impI allI)
  assume "images = []"
  then have "get_latest_ami_try env r pat own = Inr None"
    using get_latest_ami_try_images [OF assms(2,3)] by simp
  with assms(1) show "get_latest_ami env r pat own = ([], Inr None)"
    by (rule get_latest_ami_found)
next
  assume h: "images \<noteq> [] \<and> (\<forall>y\<in>set images. creation_instant env y \<noteq> None)"
  then obtain pre x post t where
    d: "images = pre @ x # post" and m: "py_max (creation_key env) images = Inr x" and
    tx: "creation_instant env x = Some t" and
    p: "\<forall>y\<in>set pre. \<exists>u. creation_instant env y = Some u \<and> u < t" and
    q: "\<forall>y\<in>set post. \<exists>u. creation_instant env y = Some u \<and> u \<le> t"
    using py_max_first_maximum [of images env] by blast
  have "get_latest_ami_try env r pat own = Inr (Some x)"
    using get_latest_ami_try_images [OF assms(2,3)] h m by (simp add: bind_exc_Inr)
  with assms(1) have "get_latest_ami env r pat own = ([], Inr (Some x))"
    by (rule get_latest_ami_found)
  with d tx p q show "\<exists>pre x post t.
               images = pre @ x # post \<and>
               get_latest_ami env r pat own = ([], Inr (Some x)) \<and>
               creation_instant env x = Some t \<and>
               (\<forall>y\<in>set pre. \<exists>u. creation_instant env y = Some u \<and> u < t) \<and>
               (\<forall>y\<in>set post. \<exists>u. creation_instant env y = Some u \<and> u \<le> t)"
    by blast
next
  fix a b ta tb
  assume h: "creation_instant env a = Some ta \<and> creation_instant env b = Some tb \<and> ta < tb \<and>
            (images = [a, b] \<or> images = [b, a])"
  then have "py_max (creation_key env) images = Inr b"
    using py_max_two [of env a ta b tb] py_max_two [of env b tb a ta] by auto
  moreover from h have "images \<noteq> []" by auto
  ultimately have "get_latest_ami_try env r pat own = Inr (Some b)"
    using get_latest_ami_try_images [OF assms(2,3)] by (simp add: bind_exc_Inr)
  with assms(1) show "get_latest_ami env r pat own = ([], Inr (Some b))"
    by (rule get_latest_ami_found)
qed

lemma sample_creation_instants:
  "creation_instant sample_env sample_image_jan = Some 1704067200000000"
  "creation_instant sample_env sample_image_jun = Some 1717200000000000"
  by (simp_all add: creation_instant_def creation_key_def sample_env_def sample_image_jan_def
      sample_image_jun_def getitem_def bind_exc_def replace_Z_def sample_fromisoformat_def)

theorem get_latest_ami_selects_latest_witness:
  "boto3_client sample_env ''eu-west-1'' = None
   \<and> describe_images sample_env ''eu-west-1''
        (ByOwnersFilters [''self''] [(''name'', [''*company-abc*'']), (''state'', [''available''])]) =
       Inr \<lparr>Images = Some [sample_image_jan, sample_image_jun]\<rparr>
   \<and> creation_instant sample_env sample_image_jan = Some 1704067200000000
   \<and> creation_instant sample_env sample_image_jun = Some 1717200000000000
   \<and> get_latest_ami sample_env ''eu-west-1'' ''*company-abc*'' ''self'' =
       ([], Inr (Some sample_image_jun))"
proof -
  have c: "boto3_client sample_env ''eu-west-1'' = None"
    by (simp add: sample_env_def)
  have d: "describe_images sample_env ''eu-west-1''
        (ByOwnersFilters [''self''] [(''name'', [''*company-abc*'']), (''state'', [''available''])]) =
       Inr \<lparr>Images = Some [sample_image_jan, sample_image_jun]\<rparr>"
    by (simp add: sample_env_def)
  have i: "Images \<lparr>Images = Some [sample_image_jan, sample_image_jun]\<rparr> =
      Some [sample_image_jan, sample_image_jun]"
    by simp
  have "get_latest_ami sample_env ''eu-west-1'' ''*company-abc*'' ''self'' =
       ([], Inr (Some sample_image_jun))"
    using get_latest_ami_selects_latest [OF c d i, THEN conjunct2, THEN conjunct2, rule_format,
        where a = sample_image_jan and b = sample_image_jun
          and ta = 1704067200000000 and tb = 1717200000000000]
      sample_creation_instants
    by simp
  with c d sample_creation_instants show ?thesis by simp
qed

section \<open>The block-device listing\<close>

lemma print_mapping_cases:
  "print_mapping m =
     (case DeviceName m of
        None \<Rightarrow> ([], Inl (Exc KeyError (py_repr ''DeviceName'')))
      | Some d \<Rightarrow> (listed_entry m, Inr ()))"
  by (simp add: print_mapping_def listed_entry_def ebs_line_def encryption_label_def getitem_def
      get_default_def io_simps split: option.splits)

lemma print_mappings_listed:
  "print_mappings ms = (out, Inr ()) \<Longrightarrow>
   out = concat (map listed_entry ms) \<and> (\<forall>m\<in>set ms. DeviceName m \<noteq> None)"
proof (induction ms arbitrary: out)
  case Nil
  then show ?case by (simp add: io_simps)
next
  case (Cons m ms)
  show ?case
  proof (cases "DeviceName m")
    case None
    with Cons.prems show ?thesis
      by (simp add: print_mapping_cases io_simps)
  next
    case (Some d)
    obtain out' res where rest: "print_mappings ms = (out', res)"
      by (cases "print_mappings ms")
    with Cons.prems Some have "res = Inr ()" and out: "out = listed_entry m @ out'"
      by (simp_all add: print_mapping_cases io_simps)
    with rest Cons.IH [of out'] Some show ?thesis
      by simp
  qed
qed

text \<open>
  Claim C6, amended.  Whenever \<^verbatim>\<open>format_ami_info\<close> returns, what it printed is the fields and
  tags, the heading \<^verbatim>\<open>Block Device Mappings:\<close>, and then, in the order of the image's
  block-device mappings, one line for each mapping that has an \<^verbatim>\<open>Ebs\<close> section: its device
  name, its volume size followed by \<^verbatim>\<open>GB\<close> (or \<^verbatim>\<open>N/A\<close>), its volume type (or \<^verbatim>\<open>N/A\<close>), and
  \<^verbatim>\<open>Encrypted\<close> when the flag is true, \<^verbatim>\<open>Not Encrypted\<close> when it is false or absent.  A
  mapping without an \<^verbatim>\<open>Ebs\<close> section has no line.
\<close>

theorem format_ami_info_block_devices:
  assumes "format_ami_info env k ami = (out, Inr ())"
  shows "\<exists>fields.
           print_ami_fields env k ami = (fields, Inr ()) \<and>
           out = fields @ [newline @ ''Block Device Mappings:''] @
                 concat (map listed_entry (get_default (BlockDeviceMappings ami) [])) \<and>
           (\<forall>m\<in>set (get_default (BlockDeviceMappings ami) []). DeviceName m \<noteq> None)"
proof -
  obtain fields res where f: "print_ami_fields env k ami = (fields, res)"
    by (cases "print_ami_fields env k ami")
  have res: "res = Inr ()"
    using assms f by (cases res) (simp_all add: format_ami_info_def io_simps)
  obtain out' res' where m: "print_mappings (get_default (BlockDeviceMappings ami) []) = (out', res')"
    by (cases "print_mappings (get_default (BlockDeviceMappings ami) [])")
  from assms f res m have "res' = Inr ()" and out: "out = fields @ [newline @ ''Block Device Mappings:''] @ out'"
    by (simp_all add: format_ami_info_def print_block_device_mappings_def io_simps)
  with m print_mappings_listed [of "get_default (BlockDeviceMappings ami) []" out']
  have "out' = concat (map listed_entry (get_default (BlockDeviceMappings ami) []))"
    and "\<forall>m\<in>set (get_default (BlockDeviceMappings ami) []). DeviceName m \<noteq> None"
    by simp_all
  with f res out show ?thesis by simp
qed


lemma sample_block_devices:
  "print_block_device_mappings sample_image_jun =
     ([newline @ ''Block Device Mappings:'',
       ''  /dev/xvda: 8GB (gp3) Encrypted'',
       ''  /dev/sdf: N/AGB (N/A) Not Encrypted''], Inr ())"
  by code_simp

lemma sample_format_returns:
  "snd (format_ami_info sample_env 0 sample_image_jun) = Inr ()"
  by code_simp

theorem format_ami_info_block_devices_witness:
  "format_ami_info sample_env 0 sample_image_jun =
     (fst (format_ami_info sample_env 0 sample_image_jun), Inr ())
   \<and> fst (format_ami_info sample_env 0 sample_image_jun) =
       fst (print_ami_fields sample_env 0 sample_image_jun) @
       [newline @ ''Block Device Mappings:'',
        ''  /dev/xvda: 8GB (gp3) Encrypted'',
        ''  /dev/sdf: N/AGB (N/A) Not Encrypted'']"
proof -
  have r: "format_ami_info sample_env 0 sample_image_jun =
     (fst (format_ami_info sample_env 0 sample_image_jun), Inr ())"
    using sample_format_returns by (simp add: prod_eq_iff)
  have l: "concat (map listed_entry (get_default (BlockDeviceMappings sample_image_jun) [])) =
       [''  /dev/xvda: 8GB (gp3) Encrypted'', ''  /dev/sdf: N/AGB (N/A) Not Encrypted'']"
    by code_simp
  from format_ami_info_block_devices [OF r] l r show ?thesis
    by auto
qed

text \<open>
  Claim C6 as stated has every entry of the block-device mappings rendered.  For an image
  with three mappings, one of them an instance-store volume without an \<^verbatim>\<open>Ebs\<close> section, the
  listing is not the heading and one line for each mapping.
\<close>

theorem block_device_listing_counterexample:
  "\<not> (\<exists>lines.
         fst (print_block_device_mappings sample_image_jun) =
           (newline @ ''Block Device Mappings:'') # lines \<and>
         length lines = length (get_default (BlockDeviceMappings sample_image_jun) []))"
proof -
  have "length (get_default (BlockDeviceMappings sample_image_jun) []) = 3"
    by (simp add: sample_image_jun_def get_default_def)
  then show ?thesis
    by (auto simp: sample_block_devices)
qed


section \<open>The report of check\_ami.py\<close>

lemma print_ami_rows_lines:
  "print_ami_rows ami_info ids = (map (ami_row ami_info) ids, Inr ())"
  by (induction ids) (simp_all add: io_simps)

lemma print_ami_table_lines:
  "print_ami_table ami_ids ami_info =
     (ami_table_head @ map (ami_row ami_info) (sort ami_ids), Inr ())"
  by (simp add: print_ami_table_def ami_table_head_def print_ami_rows_lines io_simps)

lemma ami_row_unknown:
  "dict_get ami_info ami_id = None \<Longrightarrow> ami_row ami_info ami_id = unknown_row ami_id"
  by (simp add: ami_row_def unknown_row_def)

lemma check_ami_rotation_keys:
  "set (check_ami_rotation d t) \<subseteq> set (dict_keys d)"
  by (auto simp: check_ami_rotation_filter dict_keys_def)

lemma dict_get_None_not_key:
  "dict_get d k = None \<Longrightarrow> k \<notin> set (dict_keys d)"
  by (simp add: dict_get_def dict_keys_def map_of_eq_None_iff)

lemma print_old_amis_lines:
  "set old \<subseteq> set (dict_keys ami_info) \<Longrightarrow>
   \<exists>lines. print_old_amis ami_info old = (lines, Inr ()) \<and>
           map (old_ami_line ami_info) old = map Inr lines"
proof (induction old)
  case Nil
  then show ?case by (simp add: io_simps)
next
  case (Cons k old)
  from Cons.prems have "k \<in> set (dict_keys ami_info)" by simp
  then obtain info where info: "dict_get ami_info k = Some info"
    using dict_get_None_not_key [of ami_info k] by (cases "dict_get ami_info k") auto
  then obtain line where line: "old_ami_line ami_info k = Inr line"
    by (simp add: old_ami_line_def getitem_def bind_exc_Inr)
  from Cons obtain lines where
    lines: "print_old_amis ami_info old = (lines, Inr ())"
      "map (old_ami_line ami_info) old = map Inr lines"
    by auto
  have "print_old_amis ami_info (k # old) = (line # lines, Inr ())"
    by (simp add: line lines io_print_exc_def io_simps)
  moreover have "map (old_ami_line ami_info) (k # old) = map Inr (line # lines)"
    by (simp add: line lines)
  ultimately show ?case by blast
qed

lemma print_rotation_lines:
  "\<exists>lines.
     map (old_ami_line ami_info) (check_ami_rotation ami_info rotation_days_default) = map Inr lines \<and>
     print_rotation ami_info =
       (if lines = [] then [all_within_policy_line] else rotation_warning_head @ lines, Inr ())"
proof -
  obtain lines where
    p: "print_old_amis ami_info (check_ami_rotation ami_info rotation_days_default) = (lines, Inr ())" and
    m: "map (old_ami_line ami_info) (check_ami_rotation ami_info rotation_days_default) = map Inr lines"
    using print_old_amis_lines [OF check_ami_rotation_keys] by blast
  from m have e: "check_ami_rotation ami_info rotation_days_default = [] \<longleftrightarrow> lines = []"
    by (metis map_is_Nil_conv)
  have "print_rotation ami_info =
       (if lines = [] then [all_within_policy_line] else rotation_warning_head @ lines, Inr ())"
    using e by (simp add: print_rotation_def Let_def p rotation_warning_head_def io_simps)
  with m show ?thesis by blast
qed

lemma main_check_ami_report:
  assumes "get_ec2_instances env r = (log1, Inr instances)"
    and "instances \<noteq> []"
    and "unique_ami_ids env instances = Inr ami_ids"
    and "get_ami_info env r ami_ids = (log2, Inr ami_info)"
    and "print_instances env instances = (rows, Inr ())"
  shows "main_check_ami env r =
           (check_ami_banner r @ log1 @ log2 @ fst (print_summary instances ami_ids) @ rows @
            ami_table_head @ map (ami_row ami_info) (sort ami_ids) @ fst (print_rotation ami_info),
            snd (print_rotation ami_info))"
proof -
  have s: "snd (print_summary instances ami_ids) = Inr ()"
    by (simp add: print_summary_def io_simps)
  obtain lines where "print_summary instances ami_ids = (lines, Inr ())"
    using s by (cases "print_summary instances ami_ids") simp
  then show ?thesis
    using assms
    by (simp add: main_check_ami_def check_ami_banner_def print_ami_table_lines io_simps)
qed

text \<open>
  Claim C7.  In a run of check\_ami.py that prints its report, an image id that is in use
  by an instance and has no entry in the metadata dict has a row in the AMI table whose
  three metadata columns read \<^verbatim>\<open>Unknown\<close>; it is not among the expired ids; and the rotation
  section is made from the expired ids only: the warning lines are those of the expired
  ids, and when there is none the confirmation line is printed, whatever ids lack metadata.
\<close>

theorem unknown_amis_in_report:
  assumes "get_ec2_instances env r = (log1, Inr instances)"
    and "instances \<noteq> []"
    and "unique_ami_ids env instances = Inr ami_ids"
    and "get_ami_info env r ami_ids = (log2, Inr ami_info)"
    and "print_instances env instances = (rows, Inr ())"
    and "ami_id \<in> set ami_ids"
    and "dict_get ami_info ami_id = None"
  shows "\<exists>lines.
           main_check_ami env r =
             (check_ami_banner r @ log1 @ log2 @ fst (print_summary instances ami_ids) @ rows @
              ami_table_head @ map (ami_row ami_info) (sort ami_ids) @
              (if lines = [] then [all_within_policy_line] else rotation_warning_head @ lines),
              Inr ()) \<and>
           map (old_ami_line ami_info) (check_ami_rotation ami_info rotation_days_default) =
             map Inr lines \<and>
           ami_id \<in> set (sort ami_ids) \<and>
           ami_row ami_info ami_id = unknown_row ami_id \<and>
           ami_id \<notin> set (check_ami_rotation ami_info rotation_days_default)"
proof -
  obtain lines where
    m: "map (old_ami_line ami_info) (check_ami_rotation ami_info rotation_days_default) = map Inr lines" and
    p: "print_rotation ami_info =
       (if lines = [] then [all_within_policy_line] else rotation_warning_head @ lines, Inr ())"
    using print_rotation_lines by blast
  have "main_check_ami env r =
             (check_ami_banner r @ log1 @ log2 @ fst (print_summary instances ami_ids) @ rows @
              ami_table_head @ map (ami_row ami_info) (sort ami_ids) @
              (if lines = [] then [all_within_policy_line] else rotation_warning_head @ lines),
              Inr ())"
    using main_check_ami_report [OF assms(1-5)] by (simp add: p)
  moreover have "ami_id \<in> set (sort ami_ids)"
    using assms(6) by simp
  moreover have "ami_row ami_info ami_id = unknown_row ami_id"
    using assms(7) by (rule ami_row_unknown)
  moreover have "ami_id \<notin> set (check_ami_rotation ami_info rotation_days_default)"
    using dict_get_None_not_key [OF assms(7)] check_ami_rotation_keys by blast
  ultimately show ?thesis
    using m by blast
qed


lemma february_instances:
  "get_ec2_instances february_env ''eu-west-1'' = ([], Inr sample_retained)"
  by code_simp

lemma february_ami_ids:
  "unique_ami_ids february_env sample_retained = Inr sample_ami_ids"
  by code_simp

lemma february_ami_info:
  "get_ami_info february_env ''eu-west-1'' sample_ami_ids = ([], Inr sample_fetched_info)"
  by code_simp

lemma february_rows:
  "snd (print_instances february_env sample_retained) = Inr ()"
  by code_simp

lemma sample_ami_ids_sorted:
  "sort sample_ami_ids = [''ami-0a1'', ''ami-0c3'']"
  by code_simp

lemma february_none_old:
  "check_ami_rotation sample_fetched_info rotation_days_default = []"
  by code_simp

theorem unknown_amis_in_report_witness:
  "get_ec2_instances february_env ''eu-west-1'' = ([], Inr sample_retained)
   \<and> sample_retained \<noteq> []
   \<and> unique_ami_ids february_env sample_retained = Inr sample_ami_ids
   \<and> get_ami_info february_env ''eu-west-1'' sample_ami_ids = ([], Inr sample_fetched_info)
   \<and> print_instances february_env sample_retained =
       (fst (print_instances february_env sample_retained), Inr ())
   \<and> ''ami-0c3'' \<in> set sample_ami_ids
   \<and> dict_get sample_fetched_info ''ami-0c3'' = None
   \<and> main_check_ami february_env ''eu-west-1'' =
       (check_ami_banner ''eu-west-1'' @ fst (print_summary sample_retained sample_ami_ids) @
        fst (print_instances february_env sample_retained) @ ami_table_head @
        [ami_row sample_fetched_info ''ami-0a1'', unknown_row ''ami-0c3'', all_within_policy_line],
        Inr ())"
proof -
  have n: "sample_retained \<noteq> []"
    by (simp add: sample_retained_def)
  have p: "print_instances february_env sample_retained =
       (fst (print_instances february_env sample_retained), Inr ())"
    using february_rows by (simp add: prod_eq_iff)
  have k: "''ami-0c3'' \<in> set sample_ami_ids"
    by (simp add: sample_ami_ids_def)
  have d: "dict_get sample_fetched_info ''ami-0c3'' = None"
    by (simp add: dict_get_def sample_fetched_info_def)
  from unknown_amis_in_report [OF february_instances n february_ami_ids february_ami_info p k d]
  obtain lines where
    m: "main_check_ami february_env ''eu-west-1'' =
             (check_ami_banner ''eu-west-1'' @ [] @ [] @ fst (print_summary sample_retained sample_ami_ids) @
              fst (print_instances february_env sample_retained) @
              ami_table_head @ map (ami_row sample_fetched_info) (sort sample_ami_ids) @
              (if lines = [] then [all_within_policy_line] else rotation_warning_head @ lines),
              Inr ())" and
    l: "map (old_ami_line sample_fetched_info) (check_ami_rotation sample_fetched_info rotation_days_default) =
             map Inr lines" and
    u: "ami_row sample_fetched_info ''ami-0c3'' = unknown_row ''ami-0c3''"
    by blast
  from l have "lines = []"
    by (simp add: february_none_old)
  with m u have "main_check_ami february_env ''eu-west-1'' =
       (check_ami_banner ''eu-west-1'' @ fst (print_summary sample_retained sample_ami_ids) @
        fst (print_instances february_env sample_retained) @ ami_table_head @
        [ami_row sample_fetched_info ''ami-0a1'', unknown_row ''ami-0c3'', all_within_policy_line],
        Inr ())"
    by (simp add: sample_ami_ids_sorted)
  with february_instances february_ami_ids february_ami_info n p k d show ?thesis
    by simp
qed

section \<open>The order of the AMI table\<close>

lemma list_of_set_distinct: "distinct (list_of_set env xs)"
  by (simp add: list_of_set_def)

lemma list_of_set_set: "set (list_of_set env xs) = set xs"
  by (simp add: list_of_set_def)

lemma list_of_set_length: "length (list_of_set env xs) = card (set xs)"
  by (simp add: list_of_set_def length_remdups_card_conv)

lemma unique_ami_ids_distinct:
  "unique_ami_ids env instances = Inr ami_ids \<Longrightarrow> distinct ami_ids"
  by (auto simp: unique_ami_ids_def bind_exc_def list_of_set_distinct split: sum.splits)

lemma sort_strict: "distinct xs \<Longrightarrow> sorted_wrt (<) (sort xs)"
  by (simp add: strict_sorted_iff)

lemma sort_permutation:
  "distinct xs \<Longrightarrow> distinct ys \<Longrightarrow> set ys = set xs \<Longrightarrow> sort ys = sort xs"
  by (rule sorted_distinct_set_unique) simp_all

text \<open>
  Claim C8.  For every list of distinct image ids, in whatever order, the rows of the AMI
  table are the rows of these ids in strictly ascending order of the id, and every other
  order of the same ids gives the same table.
\<close>

theorem ami_table_sorted_by_id:
  assumes "distinct ami_ids"
  shows "\<exists>ids.
           print_ami_table ami_ids ami_info = (ami_table_head @ map (ami_row ami_info) ids, Inr ()) \<and>
           sorted_wrt (<) ids \<and> set ids = set ami_ids \<and> length ids = length ami_ids \<and>
           (\<forall>other. distinct other \<and> set other = set ami_ids \<longrightarrow>
              print_ami_table other ami_info = print_ami_table ami_ids ami_info)"
proof -
  have "print_ami_table ami_ids ami_info =
      (ami_table_head @ map (ami_row ami_info) (sort ami_ids), Inr ())"
    by (rule print_ami_table_lines)
  moreover have "sorted_wrt (<) (sort ami_ids)"
    using assms by (rule sort_strict)
  moreover have "set (sort ami_ids) = set ami_ids" and "length (sort ami_ids) = length ami_ids"
    by simp_all
  moreover have "\<forall>other. distinct other \<and> set other = set ami_ids \<longrightarrow>
              print_ami_table other ami_info = print_ami_table ami_ids ami_info"
  proof (intro allI impI)
    fix other
    assume "distinct other \<and> set other = set ami_ids"
    then have "sort other = sort ami_ids"
      using assms sort_permutation [of ami_ids other] by blast
    then show "print_ami_table other ami_info = print_ami_table ami_ids ami_info"
      by (simp add: print_ami_table_lines)
  qed
  ultimately show ?thesis by blast
qed


theorem ami_table_sorted_by_id_witness:
  "distinct sample_ami_ids
   \<and> sample_ami_ids = [''ami-0c3'', ''ami-0a1'']
   \<and> print_ami_table sample_ami_ids sample_fetched_info =
       (ami_table_head @ map (ami_row sample_fetched_info) [''ami-0a1'', ''ami-0c3''], Inr ())
   \<and> ''ami-0a1'' < ''ami-0c3''
   \<and> print_ami_table [''ami-0a1'', ''ami-0c3''] sample_fetched_info =
       print_ami_table sample_ami_ids sample_fetched_info"
proof -
  have d: "distinct sample_ami_ids"
    by (simp add: sample_ami_ids_def)
  from ami_table_sorted_by_id [OF d, of sample_fetched_info] have
    o: "\<forall>other. distinct other \<and> set other = set sample_ami_ids \<longrightarrow>
              print_ami_table other sample_fetched_info = print_ami_table sample_ami_ids sample_fetched_info"
    by blast
  have lt: "''ami-0a1'' < ''ami-0c3''"
    by code_simp
  have "distinct [''ami-0a1'', ''ami-0c3''] \<and> set [''ami-0a1'', ''ami-0c3''] = set sample_ami_ids"
    by (auto simp: sample_ami_ids_def)
  with o have p: "print_ami_table [''ami-0a1'', ''ami-0c3''] sample_fetched_info =
       print_ami_table sample_ami_ids sample_fetched_info"
    by blast
  have t: "print_ami_table sample_ami_ids sample_fetched_info =
       (ami_table_head @ map (ami_row sample_fetched_info) [''ami-0a1'', ''ami-0c3''], Inr ())"
    by (simp only: print_ami_table_lines sample_ami_ids_sorted)
  have e: "sample_ami_ids = [''ami-0c3'', ''ami-0a1'']"
    by (rule sample_ami_ids_def)
  from d e t lt p show ?thesis
    by (intro conjI)
qed

section \<open>Retained instances and the count of images\<close>

lemma instance_state_name_SomeD:
  "instance_state_name inst = Some nm \<Longrightarrow>
   \<exists>st. instance_State inst = Some st \<and> state_Name st = Some nm"
  by (cases "instance_State inst") (simp_all add: instance_state_name_def)

lemma instances_loop_filter:
  "\<forall>i\<in>set insts. instance_state_name i \<noteq> None \<Longrightarrow>
   instances_loop insts acc =
     Inr (acc @ filter (\<lambda>i. instance_state_name i \<noteq> Some ''terminated'') insts)"
proof (induction insts arbitrary: acc)
  case Nil
  then show ?case by simp
next
  case (Cons inst insts)
  then obtain nm where nm: "instance_state_name inst = Some nm"
    by auto
  then obtain st where st: "instance_State inst = Some st" "state_Name st = Some nm"
    by (auto dest: instance_state_name_SomeD)
  from Cons.prems have "\<forall>i\<in>set insts. instance_state_name i \<noteq> None"
    by simp
  then show ?case
    by (simp add: Cons.IH st nm getitem_def)
qed

lemma reservations_loop_filter:
  "map Instances rs = map Some iss \<Longrightarrow>
   \<forall>i\<in>set (concat iss). instance_state_name i \<noteq> None \<Longrightarrow>
   reservations_loop rs acc =
     Inr (acc @ filter (\<lambda>i. instance_state_name i \<noteq> Some ''terminated'') (concat iss))"
proof (induction rs arbitrary: acc iss)
  case Nil
  then show ?case by simp
next
  case (Cons res rs)
  then obtain insts iss' where iss: "iss = insts # iss'" and
    r: "Instances res = Some insts" and rest: "map Instances rs = map Some iss'"
    by (cases iss) auto
  from Cons.prems(2) iss have a: "\<forall>i\<in>set insts. instance_state_name i \<noteq> None"
    and b: "\<forall>i\<in>set (concat iss'). instance_state_name i \<noteq> None"
    by simp_all
  show ?case
    by (simp add: r iss getitem_def instances_loop_filter [OF a] Cons.IH [OF rest b])
qed

lemma image_ids_of_present:
  "map instance_ImageId insts = map Some ids \<Longrightarrow> image_ids_of insts = Inr ids"
proof (induction insts arbitrary: ids)
  case Nil
  then show ?case by simp
next
  case (Cons inst insts)
  then obtain x ids' where "ids = x # ids'" "instance_ImageId inst = Some x"
    "map instance_ImageId insts = map Some ids'"
    by (cases ids) auto
  then show ?case
    by (simp add: Cons.IH getitem_def)
qed

lemma print_summary_lines:
  "print_summary instances ami_ids =
     ([newline @ ''SUMMARY:'',
       ''Total EC2 instances: '' @ str_int (int (length instances)),
       ''Unique AMIs in use: '' @ str_int (int (length ami_ids))], Inr ())"
  by (simp add: print_summary_def io_simps)

text \<open>
  Claim C9.  For every response of \<^verbatim>\<open>describe_instances\<close> in which each reservation has its
  instances and each instance its state name, \<^verbatim>\<open>get_ec2_instances\<close> returns exactly the
  instances whose state is not \<^verbatim>\<open>terminated\<close>, in order.  When some are left and each has its
  image id, the ids passed to \<^verbatim>\<open>get_ami_info\<close> are the distinct image ids of these instances,
  each once, and the summary line \<^verbatim>\<open>Unique AMIs in use\<close> shows the number of distinct ids.
\<close>

theorem unique_ami_count:
  assumes "boto3_client env r = None"
    and "describe_instances env r = Inr response"
    and "Reservations response = Some rs"
    and "map Instances rs = map Some iss"
    and "\<forall>i\<in>set (concat iss). instance_state_name i \<noteq> None"
    and "retained = filter (\<lambda>i. instance_state_name i \<noteq> Some ''terminated'') (concat iss)"
  shows "get_ec2_instances env r = ([], Inr retained)
       \<and> (retained \<noteq> [] \<and> map instance_ImageId retained = map Some ids \<longrightarrow>
            (\<exists>ami_ids log ami_info rest.
               unique_ami_ids env retained = Inr ami_ids \<and>
               distinct ami_ids \<and> set ami_ids = set ids \<and>
               get_ami_info env r ami_ids = (log, Inr ami_info) \<and>
               main_check_ami env r =
                 (check_ami_banner r @ log @
                  [newline @ ''SUMMARY:'',
                   ''Total EC2 instances: '' @ str_int (int (length retained)),
                   ''Unique AMIs in use: '' @ str_int (int (card (set ids)))] @ fst rest,
                  snd rest)))"
proof (intro conjI impI)
  have "get_ec2_instances_try env r = Inr retained"
    using assms(2,3,6) reservations_loop_filter [OF assms(4,5), of "[]"]
    by (simp add: get_ec2_instances_try_def bind_exc_Inr getitem_def)
  with assms(1) show g: "get_ec2_instances env r = ([], Inr retained)"
    by (rule get_ec2_instances_fetched)
  assume h: "retained \<noteq> [] \<and> map instance_ImageId retained = map Some ids"
  then have u: "unique_ami_ids env retained = Inr (list_of_set env ids)"
    by (simp add: unique_ami_ids_def image_ids_of_present bind_exc_Inr)
  obtain log ami_info where a: "get_ami_info env r (list_of_set env ids) = (log, Inr ami_info)"
    using get_ami_info_returns [OF assms(1)] by blast
  define rest where "rest =
    io_bind (print_instances env retained) (\<lambda>_.
    io_bind (print_ami_table (list_of_set env ids) ami_info) (\<lambda>_. print_rotation ami_info))"
  have "main_check_ami env r =
                 (check_ami_banner r @ log @
                  [newline @ ''SUMMARY:'',
                   ''Total EC2 instances: '' @ str_int (int (length retained)),
                   ''Unique AMIs in use: '' @ str_int (int (card (set ids)))] @ fst rest,
                  snd rest)"
    using h
    by (simp add: main_check_ami_def g u a print_summary_lines check_ami_banner_def rest_def
        list_of_set_length io_simps)
  with u a show "\<exists>ami_ids log ami_info rest.
               unique_ami_ids env retained = Inr ami_ids \<and>
               distinct ami_ids \<and> set ami_ids = set ids \<and>
               get_ami_info env r ami_ids = (log, Inr ami_info) \<and>
               main_check_ami env r =
                 (check_ami_banner r @ log @
                  [newline @ ''SUMMARY:'',
                   ''Total EC2 instances: '' @ str_int (int (length retained)),
                   ''Unique AMIs in use: '' @ str_int (int (card (set ids)))] @ fst rest,
                  snd rest)"
    using list_of_set_distinct [of env ids] list_of_set_set [of env ids] by blast
qed

lemma february_response:
  "boto3_client february_env ''eu-west-1'' = None"
  "describe_instances february_env ''eu-west-1'' = Inr \<lparr>Reservations = Some sample_reservations\<rparr>"
  by (simp_all add: february_env_def sample_env_def)

lemma sample_state_names:
  "list_all (\<lambda>i. instance_state_name i \<noteq> None) (concat sample_instance_lists)"
  by (simp add: sample_instance_lists_def sample_instance_def instance_state_name_def)

lemma sample_retained_filter:
  "sample_retained =
     filter (\<lambda>i. instance_state_name i \<noteq> Some ''terminated'') (concat sample_instance_lists)"
  by (simp add: sample_retained_def sample_instance_lists_def sample_instance_def
      instance_state_name_def)

lemma sample_retained_image_ids:
  "map instance_ImageId sample_retained = map Some [''ami-0a1'', ''ami-0a1'', ''ami-0c3'']"
  by (simp add: sample_retained_def sample_instance_def)

lemma sample_counts:
  "str_int (int (length sample_retained)) = ''3''"
  "str_int (int (card (set [''ami-0a1'', ''ami-0a1'', ''ami-0c3'']))) = ''2''"
  "str_int 2 = ''2''"
  "str_int 3 = ''3''"
  by code_simp+

theorem unique_ami_count_witness:
  "boto3_client february_env ''eu-west-1'' = None
   \<and> describe_instances february_env ''eu-west-1'' = Inr \<lparr>Reservations = Some sample_reservations\<rparr>
   \<and> map Instances sample_reservations = map Some sample_instance_lists
   \<and> list_all (\<lambda>i. instance_state_name i \<noteq> None) (concat sample_instance_lists)
   \<and> get_ec2_instances february_env ''eu-west-1'' = ([], Inr sample_retained)
   \<and> sample_retained \<noteq> []
   \<and> map instance_ImageId sample_retained = map Some [''ami-0a1'', ''ami-0a1'', ''ami-0c3'']
   \<and> take 5 (fst (main_check_ami february_env ''eu-west-1'')) =
       check_ami_banner ''eu-west-1'' @
       [newline @ ''SUMMARY:'', ''Total EC2 instances: 3'', ''Unique AMIs in use: 2'']"
proof -
  have r: "Reservations \<lparr>Reservations = Some sample_reservations\<rparr> = Some sample_reservations"
    by simp
  have m: "map Instances sample_reservations = map Some sample_instance_lists"
    by (simp add: sample_reservations_def)
  have s: "\<forall>i\<in>set (concat sample_instance_lists). instance_state_name i \<noteq> None"
    using sample_state_names by (simp only: list_all_iff)
  have n: "sample_retained \<noteq> []"
    by (simp add: sample_retained_def)
  note t = unique_ami_count [OF february_response r m s sample_retained_filter,
      of "[''ami-0a1'', ''ami-0a1'', ''ami-0c3'']"]
  from t have g: "get_ec2_instances february_env ''eu-west-1'' = ([], Inr sample_retained)"
    by (rule conjunct1)
  from t n sample_retained_image_ids obtain ami_ids log ami_info rest where
    u: "unique_ami_ids february_env sample_retained = Inr ami_ids" and
    a: "get_ami_info february_env ''eu-west-1'' ami_ids = (log, Inr ami_info)" and
    o: "main_check_ami february_env ''eu-west-1'' =
          (check_ami_banner ''eu-west-1'' @ log @
           [newline @ ''SUMMARY:'',
            ''Total EC2 instances: '' @ str_int (int (length sample_retained)),
            ''Unique AMIs in use: '' @ str_int (int (card (set [''ami-0a1'', ''ami-0a1'', ''ami-0c3''])))] @
           fst rest, snd rest)"
    by blast
  from u have "ami_ids = sample_ami_ids"
    by (simp add: february_ami_ids)
  with a have "log = []"
    by (simp add: february_ami_info)
  with o have "take 5 (fst (main_check_ami february_env ''eu-west-1'')) =
       check_ami_banner ''eu-west-1'' @
       [newline @ ''SUMMARY:'', ''Total EC2 instances: 3'', ''Unique AMIs in use: 2'']"
    by (simp add: sample_counts check_ami_banner_def)
  with february_response m sample_state_names g n sample_retained_image_ids show ?thesis
    by (intro conjI)
qed

end
